theory Spec2Isabelle
  imports Complex_Main
begin

text \<open>
  A model of \<^verbatim>\<open>vision/train/train.py\<close>, the training script of boja: the 80/20
  split of the shuffled indices, the loading of the labels, manifest discovery, and
  \<^verbatim>\<open>main\<close> as the sequence of calls it makes on storage, datasets, the training
  engine and the plot, with the properties its specification states.
\<close>

section \<open>The train/test split of \<^verbatim>\<open>main\<close> (train.py, lines 171-178)\<close>

subsection \<open>The double-precision product \<^verbatim>\<open>0.2 * len(dataset)\<close>\<close>

text \<open>
  Python evaluates \<^verbatim>\<open>0.2 * len(dataset)\<close> in IEEE binary64: the integer is converted
  to a double, multiplied by the double nearest to 0.2, and the product is rounded to
  nearest, ties to even. The double written \<^verbatim>\<open>0.2\<close> is exactly
  \<open>3602879701896397 / 2 ^ 54\<close>. Every value below is a natural number of units of
  \<open>2 ^ - 54\<close> or of units of one, so the rounding is computed on naturals; the
  exponent range of binary64 is not reached by any list length (\<^verbatim>\<open>len\<close> is at most
  \<open>2 ^ 63 - 1\<close>).
\<close>

fun bit_length :: "nat \<Rightarrow> nat" where
  "bit_length n = (if n = 0 then 0 else Suc (bit_length (n div 2)))"

declare bit_length.simps [simp del]

definition round53 :: "nat \<Rightarrow> nat" where
  \<comment> \<open>round to a 53-bit significand, to nearest, ties to even\<close>
  "round53 p =
     (let b = bit_length p in
      if b \<le> 53 then p
      else
        let s = b - 53;
            q = p div 2 ^ s;
            r = p mod 2 ^ s;
            h = 2 ^ (s - 1)
        in (if h < r \<or> (r = h \<and> odd q) then q + 1 else q) * 2 ^ s)"

definition double_0_2 :: nat where
  \<comment> \<open>the significand of the double 0.2, in units of \<open>2 ^ - 54\<close>\<close>
  "double_0_2 = 3602879701896397"

definition num_test_of :: "nat \<Rightarrow> nat" where
  \<comment> \<open>\<^verbatim>\<open>int(0.2 * n)\<close>: \<^verbatim>\<open>int\<close> truncates, the product is not negative\<close>
  "num_test_of n = round53 (double_0_2 * round53 n) div 2 ^ 54"

subsection \<open>Slices with a possibly negative bound\<close>

definition slice_bound :: "nat \<Rightarrow> int \<Rightarrow> nat" where
  \<comment> \<open>how Python turns a slice bound into a position of a sequence of length \<open>len\<close>\<close>
  "slice_bound len i =
     (if i < 0 then (if i + int len < 0 then 0 else nat (i + int len))
      else if int len < i then len else nat i)"

definition slice_to :: "'a list \<Rightarrow> int \<Rightarrow> 'a list" where
  \<comment> \<open>\<^verbatim>\<open>xs[:stop]\<close>\<close>
  "slice_to xs stop = take (slice_bound (length xs) stop) xs"

definition slice_from :: "'a list \<Rightarrow> int \<Rightarrow> 'a list" where
  \<comment> \<open>\<^verbatim>\<open>xs[start:]\<close>\<close>
  "slice_from xs start = drop (slice_bound (length xs) start) xs"

definition split_indices :: "nat list \<Rightarrow> nat list \<times> nat list" where
  \<comment> \<open>lines 175-178: the index lists handed to the two \<^verbatim>\<open>Subset\<close>s;
      \<open>indices\<close> is \<^verbatim>\<open>torch.randperm(len(dataset)).tolist()\<close>\<close>
  "split_indices indices =
     (let num_test = int (num_test_of (length indices))
      in (slice_to indices (- 1 * num_test), slice_from indices (- 1 * num_test)))"

definition is_randperm :: "nat \<Rightarrow> nat list \<Rightarrow> bool" where
  \<comment> \<open>what \<^verbatim>\<open>torch.randperm(n)\<close> can return: the numbers below \<open>n\<close>, each once\<close>
  "is_randperm n indices \<longleftrightarrow> length indices = n \<and> distinct indices \<and> set indices = {0..<n}"


section \<open>Text, paths and formatting\<close>

text \<open>
  A Python \<^verbatim>\<open>str\<close> read from the label file is a sequence of Unicode code points,
  modelled as a list of naturals. Paths, flag values and messages are \<open>string\<close>s.
\<close>

type_synonym unicode = "nat list"

definition is_linebreak :: "nat \<Rightarrow> bool" where
  \<comment> \<open>the line boundaries of \<^verbatim>\<open>str.splitlines\<close>: LF, VT, FF, CR, FS, GS, RS, NEL, LS, PS\<close>
  "is_linebreak c \<longleftrightarrow> c \<in> set [10, 11, 12, 13, 28, 29, 30, 133, 8232, 8233]"

fun splitlines :: "unicode \<Rightarrow> unicode list" where
  \<comment> \<open>\<^verbatim>\<open>str.splitlines()\<close>: boundaries are dropped, CR LF is one boundary, and a final
      boundary opens no further line\<close>
  "splitlines [] = []"
| "splitlines [c] = (if is_linebreak c then [[]] else [[c]])"
| "splitlines (c # d # cs) =
     (if c = 13 \<and> d = 10 then [] # splitlines cs
      else if is_linebreak c then [] # splitlines (d # cs)
      else (case splitlines (d # cs) of
              [] \<Rightarrow> [[c]]
            | l # ls \<Rightarrow> (c # l) # ls))"

definition list_insert :: "int \<Rightarrow> 'a \<Rightarrow> 'a list \<Rightarrow> 'a list" where
  \<comment> \<open>\<^verbatim>\<open>xs.insert(i, x)\<close>: the position is clamped as a slice bound is\<close>
  "list_insert i x xs =
     (let k = slice_bound (length xs) i in take k xs @ x # drop k xs)"

definition background :: unicode where
  "background = map of_char ''background''"

definition load_labels :: "unicode \<Rightarrow> unicode list option" where
  \<comment> \<open>lines 128-135; \<open>None\<close> is the early return of line 132\<close>
  "load_labels content =
     (let labels = splitlines content
      in if length labels = 0 then None
         else Some (list_insert 0 background labels))"

definition path_join :: "string \<Rightarrow> string \<Rightarrow> string" where
  \<comment> \<open>\<^verbatim>\<open>os.path.join(a, b)\<close> of posixpath\<close>
  "path_join a b =
     (if b \<noteq> [] \<and> hd b = CHR ''/'' then b
      else if a = [] \<or> last a = CHR ''/'' then a @ b
      else a @ ''/'' @ b)"

definition slash_join :: "string \<Rightarrow> string \<Rightarrow> string" where
  \<comment> \<open>\<^verbatim>\<open>"/".join([a, b])\<close>\<close>
  "slash_join a b = a @ ''/'' @ b"

fun str_nat :: "nat \<Rightarrow> string" where
  "str_nat n =
     (if n < 10 then [''0123456789'' ! n]
      else str_nat (n div 10) @ [''0123456789'' ! (n mod 10)])"

declare str_nat.simps [simp del]

definition str_int :: "int \<Rightarrow> string" where
  \<comment> \<open>\<^verbatim>\<open>str(i)\<close> and \<^verbatim>\<open>"%d" % i\<close> of an integer\<close>
  "str_int i = (if i < 0 then CHR ''-'' # str_nat (nat (- i)) else str_nat (nat i))"

definition str_opt :: "string option \<Rightarrow> string" where
  \<comment> \<open>\<^verbatim>\<open>"%s" % x\<close> of a flag that is a string or \<^verbatim>\<open>None\<close>\<close>
  "str_opt x = (case x of None \<Rightarrow> ''None'' | Some s \<Rightarrow> s)"

section \<open>Settings, flags and the world \<^verbatim>\<open>main\<close> runs in\<close>

text \<open>
  The constants imported from \<^verbatim>\<open>_settings\<close> (lines 25-40) are not among the sources;
  they are parameters of the model.
\<close>

record settings =
  IMAGE_DIR_NAME :: string
  ANNOTATION_DIR_NAME :: string
  MANIFEST_DIR_NAME :: string
  MODEL_STATE_DIR_NAME :: string
  IMAGE_FILE_TYPE :: string
  ANNOTATION_FILE_TYPE :: string
  MANIFEST_FILE_TYPE :: string
  MODEL_STATE_FILE_TYPE :: string
  LABEL_FILE_NAME :: string
  LOGS_DIR_NAME :: string

record flags =
  local_data_dir :: string
  s3_bucket_name :: "string option"
  s3_data_dir :: string
  network :: string
  num_epochs :: int

text \<open>
  Everything \<^verbatim>\<open>main\<close> reads from outside: the clock, the bucket check, the local
  files after synchronisation, the device, the names defined by \<^verbatim>\<open>_models\<close>, the
  length of the dataset, the permutation drawn by \<^verbatim>\<open>torch.randperm\<close>, and the
  \<^verbatim>\<open>coco_eval\<close> dictionary of each epoch's evaluation (by epoch and key). The
  statistics are values of a type \<open>'m\<close> that \<^verbatim>\<open>main\<close> only passes on.
\<close>

record 'm world =
  FLAGS :: flags
  time_time :: int
  s3_bucket_exists :: "string \<Rightarrow> bool"
  files :: "string \<Rightarrow> unicode option"
  listdir :: "string \<Rightarrow> string list"
  cuda_is_available :: bool
  models :: "string list"
  dataset_len :: nat
  randperm :: "nat \<Rightarrow> nat list"
  coco_eval :: "nat \<Rightarrow> string \<Rightarrow> 'm list option"

datatype transform = ToTensor | RandomHorizontalFlip rat

datatype exn = KeyError | IndexError

datatype outcome = Returned | Raised exn

datatype 'm event =
    Print string
  | S3_bucket_exists "string option"
  | S3_download_dir "string option" string string string
  | S3_upload_files "string option" "string list" string
  | BojaDataSet string string "string option" "transform list" "unicode list"
  | DataLoader "nat list" bool
  | Model string nat
  | Train_one_epoch nat
  | Lr_scheduler_step
  | Evaluate nat
  | Create_output_dir string
  | Torch_save string
  | Plt_plot "'m list" string
  | Plt_legend string
  | Plt_title string
  | Plt_savefig string

definition exit_code :: "outcome \<Rightarrow> nat" where
  \<comment> \<open>line 277: \<^verbatim>\<open>app.run(main)\<close> exits with \<^verbatim>\<open>sys.exit(main(argv))\<close>; \<^verbatim>\<open>main\<close> returns
      \<^verbatim>\<open>None\<close>, and an exception that escapes ends the process with status 1\<close>
  "exit_code out = (case out of Returned \<Rightarrow> 0 | Raised e \<Rightarrow> 1)"

definition get_transform :: "bool \<Rightarrow> transform list" where
  \<comment> \<open>lines 66-71; the list is what \<^verbatim>\<open>Compose\<close> receives\<close>
  "get_transform train =
     [ToTensor] @ (if train then [RandomHorizontalFlip (1 / 2)] else [])"

section \<open>Manifest discovery\<close>

text \<open>
  Modelled from the spec: \<^verbatim>\<open>get_highest_numbered_file\<close> is imported from
  \<^verbatim>\<open>_file_utils\<close> (line 16), which is not among the sources. The spec says that it
  scans a directory for files of a fixed type, extracts the highest embedded numeric
  identifier, and returns that file's path, or a sentinel for none found. Here a file is
  of type \<open>ext\<close> when its name ends in a dot and \<open>ext\<close> (line 237 writes file types
  after a dot); the numbers embedded in a name are the maximal runs of decimal digits
  before that extension; a name without a digit is no candidate; among equal numbers the
  first name of the listing stays.
\<close>

definition is_digit :: "char \<Rightarrow> bool" where
  \<comment> \<open>Modelled from the spec: a character of an embedded number\<close>
  "is_digit c \<longleftrightarrow> c \<in> set ''0123456789''"

definition digit_value :: "char \<Rightarrow> nat" where
  \<comment> \<open>Modelled from the spec: the value of a decimal digit\<close>
  "digit_value c = of_char c - 48"

fun numbers_in :: "string \<Rightarrow> nat option \<Rightarrow> nat list" where
  \<comment> \<open>Modelled from the spec: the numbers embedded in a string, its runs of digits;
      the second argument is the run being read\<close>
  "numbers_in [] cur = (case cur of None \<Rightarrow> [] | Some n \<Rightarrow> [n])"
| "numbers_in (c # cs) cur =
     (if is_digit c
      then numbers_in cs (Some (10 * (case cur of None \<Rightarrow> 0 | Some n \<Rightarrow> n) + digit_value c))
      else (case cur of None \<Rightarrow> numbers_in cs None | Some n \<Rightarrow> n # numbers_in cs None))"

definition has_file_type :: "string \<Rightarrow> string \<Rightarrow> bool" where
  \<comment> \<open>Modelled from the spec: a file of the fixed type\<close>
  "has_file_type ext name \<longleftrightarrow>
     length ext < length name \<and> drop (length name - (length ext + 1)) name = ''.'' @ ext"

definition file_number :: "string \<Rightarrow> string \<Rightarrow> nat option" where
  \<comment> \<open>Modelled from the spec: the highest number embedded in a name before its extension\<close>
  "file_number ext name =
     (let ns = numbers_in (take (length name - (length ext + 1)) name) None
      in if ns = [] then None else Some (fold max ns 0))"

fun highest :: "(string \<times> nat) list \<Rightarrow> (string \<times> nat) option \<Rightarrow> (string \<times> nat) option" where
  \<comment> \<open>Modelled from the spec: the scan for the highest number, with the best so far\<close>
  "highest [] best = best"
| "highest ((f, n) # rest) best =
     highest rest
       (case best of
          None \<Rightarrow> Some (f, n)
        | Some (g, m) \<Rightarrow> if m < n then Some (f, n) else Some (g, m))"

definition candidates :: "string \<Rightarrow> string list \<Rightarrow> (string \<times> nat) list" where
  \<comment> \<open>Modelled from the spec: the files of the type that embed a number, in listing order\<close>
  "candidates ext names =
     concat (map (\<lambda>f. if has_file_type ext f
                       then (case file_number ext f of None \<Rightarrow> [] | Some n \<Rightarrow> [(f, n)])
                       else []) names)"

definition get_highest_numbered_file ::
  "(string \<Rightarrow> string list) \<Rightarrow> string \<Rightarrow> string \<Rightarrow> string option" where
  \<comment> \<open>Modelled from the spec: the listing of the directory is the first argument\<close>
  "get_highest_numbered_file ls dir_path ext =
     (case highest (candidates ext (ls dir_path)) None of
        None \<Rightarrow> None
      | Some (f, n) \<Rightarrow> Some (path_join dir_path f))"

definition get_newest_manifest_path ::
  "settings \<Rightarrow> (string \<Rightarrow> string list) \<Rightarrow> string \<Rightarrow> string option" where
  \<comment> \<open>lines 74-75\<close>
  "get_newest_manifest_path cfg ls manifest_dir_path =
     get_highest_numbered_file ls manifest_dir_path (MANIFEST_FILE_TYPE cfg)"

section \<open>\<^verbatim>\<open>main\<close> (lines 78-273)\<close>

text \<open>
  A run is the list of the calls \<^verbatim>\<open>main\<close> makes that act on the outside, in order, and
  how it ends. Calls into the collaborators (storage, dataset, engine, framework) are
  recorded with their arguments and taken to return; the exceptions of \<^verbatim>\<open>main\<close>'s own
  subscripts (the model lookup of line 199, the key and the indices of lines 225-227) are
  outcomes.
\<close>

definition AVERAGE_PRECISION_STAT_INDEX :: nat where
  "AVERAGE_PRECISION_STAT_INDEX = 0"

definition AVERAGE_RECALL_STAT_INDEX :: nat where
  "AVERAGE_RECALL_STAT_INDEX = 8"

definition stat_at :: "'m list \<Rightarrow> nat \<Rightarrow> exn + 'm" where
  \<comment> \<open>\<^verbatim>\<open>stats[i]\<close> for an index that is not negative\<close>
  "stat_at stats i = (if i < length stats then Inr (stats ! i) else Inl IndexError)"

definition py_range :: "int \<Rightarrow> nat list" where
  \<comment> \<open>\<^verbatim>\<open>range(n)\<close>: empty when \<open>n\<close> is not positive\<close>
  "py_range n = [0..<nat n]"

definition bucket_check :: "'m world \<Rightarrow> bool \<times> 'm event list" where
  \<comment> \<open>lines 82-95: the value of \<^verbatim>\<open>use_s3\<close> and the calls made\<close>
  "bucket_check w =
     (case s3_bucket_name (FLAGS w) of
        None \<Rightarrow> (False, [])
      | Some b \<Rightarrow>
          if \<not> s3_bucket_exists w b
          then (False,
                [S3_bucket_exists (Some b),
                 Print (''Bucket: '' @ str_opt (Some b)
                        @ '' either does not exist or you do not have access to it'')])
          else (True,
                [S3_bucket_exists (Some b),
                 Print (''Bucket: '' @ str_opt (Some b)
                        @ '' exists and you have access to it'')]))"

definition download_all :: "settings \<Rightarrow> flags \<Rightarrow> 'm event list" where
  \<comment> \<open>lines 98-120\<close>
  "download_all cfg fl =
     [S3_download_dir (s3_bucket_name fl)
        (slash_join (s3_data_dir fl) (IMAGE_DIR_NAME cfg))
        (path_join (local_data_dir fl) (IMAGE_DIR_NAME cfg))
        (IMAGE_FILE_TYPE cfg),
      S3_download_dir (s3_bucket_name fl)
        (slash_join (s3_data_dir fl) (ANNOTATION_DIR_NAME cfg))
        (path_join (local_data_dir fl) (ANNOTATION_DIR_NAME cfg))
        (ANNOTATION_FILE_TYPE cfg),
      S3_download_dir (s3_bucket_name fl)
        (slash_join (s3_data_dir fl) (MANIFEST_DIR_NAME cfg))
        (path_join (local_data_dir fl) (MANIFEST_DIR_NAME cfg))
        (MANIFEST_FILE_TYPE cfg)]"

fun epoch_loop ::
  "'m world \<Rightarrow> nat list \<Rightarrow> 'm list \<Rightarrow> 'm list \<Rightarrow> 'm event list \<times> (exn + 'm list \<times> 'm list)" where
  \<comment> \<open>lines 217-227, over the epochs still to run, with the two histories so far\<close>
  "epoch_loop w [] average_persision average_recall =
     ([], Inr (average_persision, average_recall))"
| "epoch_loop w (epoch # rest) average_persision average_recall =
     (let calls = [Train_one_epoch epoch, Lr_scheduler_step, Evaluate epoch]
      in case coco_eval w epoch ''bbox'' of
           None \<Rightarrow> (calls, Inl KeyError)
         | Some stats \<Rightarrow>
             (case stat_at stats AVERAGE_PRECISION_STAT_INDEX of
                Inl e \<Rightarrow> (calls, Inl e)
              | Inr p \<Rightarrow>
                  (case stat_at stats AVERAGE_RECALL_STAT_INDEX of
                     Inl e \<Rightarrow> (calls, Inl e)
                   | Inr r \<Rightarrow>
                       (let (more, res) =
                              epoch_loop w rest (average_persision @ [p]) (average_recall @ [r])
                        in (calls @ more, res)))))"

definition save_and_publish ::
  "settings \<Rightarrow> flags \<Rightarrow> int \<Rightarrow> bool \<Rightarrow> 'm list \<Rightarrow> 'm list \<Rightarrow> 'm event list" where
  \<comment> \<open>lines 229-273\<close>
  "save_and_publish cfg fl start_time use_s3 average_persision average_recall =
     (let model_state_local_dir = path_join (local_data_dir fl) (MODEL_STATE_DIR_NAME cfg);
          run_name = str_int start_time @ ''-'' @ network fl;
          model_state_file_path =
            path_join model_state_local_dir (run_name @ ''.'' @ MODEL_STATE_FILE_TYPE cfg);
          log_image_local_dir = path_join (local_data_dir fl) (LOGS_DIR_NAME cfg);
          log_file_name = run_name @ ''.jpg'';
          log_file_path = path_join log_image_local_dir log_file_name
      in [Create_output_dir model_state_local_dir,
          Torch_save model_state_file_path,
          Print (''Model state saved at: '' @ model_state_file_path),
          Plt_plot average_persision ''AP: IoU=0.50:0.95 maxDets=100'',
          Plt_plot average_recall ''AR: IoU=0.50:0.95 maxDets=100'',
          Plt_legend ''lower right'',
          Plt_title (''Evaluation data from '' @ run_name),
          Create_output_dir log_image_local_dir,
          Plt_savefig log_file_path,
          Print (''Log file saved at: '' @ log_file_path)]
         @ (if use_s3
            then [S3_upload_files (s3_bucket_name fl) [model_state_file_path]
                    (slash_join (s3_data_dir fl) (MODEL_STATE_DIR_NAME cfg)),
                  S3_upload_files (s3_bucket_name fl) [log_file_path]
                    (slash_join (s3_data_dir fl) (LOGS_DIR_NAME cfg))]
            else [])
         @ [Print ''Training complete''])"

definition prepare :: "settings \<Rightarrow> 'm world \<Rightarrow> unicode list \<Rightarrow> 'm event list" where
  \<comment> \<open>lines 137-196, entered with the labels of line 135: the manifest, the two
      datasets, the split and the two loaders\<close>
  "prepare cfg w labels =
     (let fl = FLAGS w;
          manifest_dir = path_join (local_data_dir fl) (MANIFEST_DIR_NAME cfg);
          newest_manifest_file = get_newest_manifest_path cfg (listdir w) manifest_dir;
          no_manifest =
            (if newest_manifest_file = None
             then [Print (''Cannot find a manifest file in: '' @ manifest_dir)]
             else []);
          device = (if cuda_is_available w then ''cuda'' else ''cpu'');
          datasets =
            [Print (''Using device:  '' @ device),
             BojaDataSet (path_join (local_data_dir fl) (IMAGE_DIR_NAME cfg))
               (path_join (local_data_dir fl) (ANNOTATION_DIR_NAME cfg))
               newest_manifest_file (get_transform True) labels,
             BojaDataSet (path_join (local_data_dir fl) (IMAGE_DIR_NAME cfg))
               (path_join (local_data_dir fl) (ANNOTATION_DIR_NAME cfg))
               newest_manifest_file (get_transform False) labels];
          indices = randperm w (dataset_len w);
          (dataset, dataset_test) = split_indices indices;
          loaders =
            [Print (''Training dataset size: '' @ str_int (int (length dataset))
                    @ '', Testing dataset size: '' @ str_int (int (length dataset_test))),
             DataLoader dataset True,
             DataLoader dataset_test False]
      in no_manifest @ datasets @ loaders)"

definition train ::
  "settings \<Rightarrow> 'm world \<Rightarrow> int \<Rightarrow> bool \<Rightarrow> unicode list \<Rightarrow> 'm event list \<times> outcome" where
  \<comment> \<open>lines 137-273\<close>
  "train cfg w start_time use_s3 labels =
     (let fl = FLAGS w;
          num_classes = length labels;
          before = prepare cfg w labels
      in if network fl \<notin> set (models w) then (before, Raised KeyError)
         else
           (let setup =
                  [Model (network fl) num_classes,
                   Print (''Training for '' @ str_int (num_epochs fl) @ '' epochs'')]
            in case epoch_loop w (py_range (num_epochs fl)) [] [] of
                 (epochs, Inl e) \<Rightarrow> (before @ setup @ epochs, Raised e)
               | (epochs, Inr (average_persision, average_recall)) \<Rightarrow>
                   (before @ setup @ epochs
                    @ save_and_publish cfg fl start_time use_s3 average_persision average_recall,
                    Returned)))"

definition main :: "settings \<Rightarrow> 'm world \<Rightarrow> 'm event list \<times> outcome" where
  "main cfg w =
     (let start_time = time_time w;
          fl = FLAGS w;
          (use_s3, checked) = bucket_check w;
          synced = checked @ (if use_s3 then download_all cfg fl else []);
          label_file_path = path_join (local_data_dir fl) (LABEL_FILE_NAME cfg)
      in case files w label_file_path of
           None \<Rightarrow> (synced @ [Print (''Missing file '' @ label_file_path)], Returned)
         | Some content \<Rightarrow>
             (case load_labels content of
                None \<Rightarrow>
                  (synced @ [Print (''No label categories found in '' @ label_file_path)],
                   Returned)
              | Some labels \<Rightarrow>
                  (let (rest, out) = train cfg w start_time use_s3 labels
                   in (synced @ rest, out))))"

definition sync_calls :: "settings \<Rightarrow> 'm world \<Rightarrow> 'm event list" where
  \<comment> \<open>the calls of lines 82-120 alone\<close>
  "sync_calls cfg w =
     (let (use_s3, checked) = bucket_check w
      in checked @ (if use_s3 then download_all cfg (FLAGS w) else []))"

definition label_path :: "settings \<Rightarrow> 'm world \<Rightarrow> string" where
  \<comment> \<open>the path of line 122\<close>
  "label_path cfg w = path_join (local_data_dir (FLAGS w)) (LABEL_FILE_NAME cfg)"

subsection \<open>What a call of a run is\<close>

fun is_network_io :: "'m event \<Rightarrow> bool" where
  "is_network_io (S3_bucket_exists b) = True"
| "is_network_io (S3_download_dir b p d t) = True"
| "is_network_io (S3_upload_files b fs p) = True"
| "is_network_io e = False"

fun is_transfer :: "'m event \<Rightarrow> bool" where
  "is_transfer (S3_download_dir b p d t) = True"
| "is_transfer (S3_upload_files b fs p) = True"
| "is_transfer e = False"

fun is_dataset_construction :: "'m event \<Rightarrow> bool" where
  "is_dataset_construction (BojaDataSet i a m t l) = True"
| "is_dataset_construction e = False"

fun is_artifact_write :: "'m event \<Rightarrow> bool" where
  "is_artifact_write (Torch_save p) = True"
| "is_artifact_write (Plt_savefig p) = True"
| "is_artifact_write e = False"

fun is_plot :: "'m event \<Rightarrow> bool" where
  "is_plot (Plt_plot h l) = True"
| "is_plot e = False"

section \<open>Example inputs\<close>

definition example_settings :: settings where
  "example_settings =
     \<lparr>IMAGE_DIR_NAME = ''images'', ANNOTATION_DIR_NAME = ''annotations'',
      MANIFEST_DIR_NAME = ''manifests'', MODEL_STATE_DIR_NAME = ''modelstates'',
      IMAGE_FILE_TYPE = ''jpg'', ANNOTATION_FILE_TYPE = ''xml'',
      MANIFEST_FILE_TYPE = ''json'', MODEL_STATE_FILE_TYPE = ''pt'',
      LABEL_FILE_NAME = ''labels.txt'', LOGS_DIR_NAME = ''logs''\<rparr>"

definition example_flags :: flags where
  "example_flags =
     \<lparr>local_data_dir = ''data'', s3_bucket_name = None, s3_data_dir = ''boja'',
      network = ''net'', num_epochs = 2\<rparr>"

definition example_world :: "nat world" where
  \<comment> \<open>two labels, three manifests, six examples, twelve statistics an epoch\<close>
  "example_world =
     \<lparr>FLAGS = example_flags, time_time = 1600000000,
      s3_bucket_exists = (\<lambda>b. False),
      files = (\<lambda>p. if p = ''data/labels.txt'' then Some (map of_char ''cat\<newline>dog\<newline>'') else None),
      listdir = (\<lambda>d. if d = ''data/manifests'' then [''a_3.json'', ''a_10.json'', ''a_2.json''] else []),
      cuda_is_available = False,
      models = [''net''],
      dataset_len = 6,
      randperm = (\<lambda>n. [3, 1, 5, 0, 2, 4]),
      coco_eval = (\<lambda>epoch key. if key = ''bbox'' then Some (map (\<lambda>i. 100 * epoch + i) [0..<12]) else None)\<rparr>"

definition example_world_no_label_file :: "nat world" where
  "example_world_no_label_file = example_world\<lparr>files := (\<lambda>p. None)\<rparr>"

definition example_world_empty_label_file :: "nat world" where
  "example_world_empty_label_file = example_world\<lparr>files := (\<lambda>p. Some [])\<rparr>"

definition example_world_no_manifest :: "nat world" where
  "example_world_no_manifest = example_world\<lparr>listdir := (\<lambda>d. [])\<rparr>"

definition example_world_no_bucket_access :: "nat world" where
  "example_world_no_bucket_access =
     example_world\<lparr>FLAGS := example_flags\<lparr>s3_bucket_name := Some ''bkt''\<rparr>\<rparr>"

section \<open>The product \<^verbatim>\<open>0.2 * n\<close> and the split\<close>

text \<open>
  Below \<open>2 ^ 52\<close> the rounded product truncates to the integer quotient by five: five
  times the significand of 0.2 is \<open>2 ^ 54 + 1\<close>, so the exact product lies above
  \<open>n div 5\<close> by less than one minus the largest rounding error. (At
  \<open>n = 2 ^ 53 - 3\<close> the product rounds up to the next integer.)
\<close>

lemma bit_length_le: "n < 2 ^ k \<Longrightarrow> bit_length n \<le> k"
proof (induction k arbitrary: n)
  case 0
  then show ?case by (simp add: bit_length.simps)
next
  case (Suc k)
  from Suc.prems have "n div 2 < 2 ^ k" by simp
  then have "bit_length (n div 2) \<le> k" by (rule Suc.IH)
  then show ?case by (subst bit_length.simps) simp
qed

lemma round53_small: "p < 2 ^ 53 \<Longrightarrow> round53 p = p"
  using bit_length_le [of p 53] by (simp add: round53_def)

lemma round53_upper:
  assumes "53 < bit_length p"
  shows "round53 p \<le> p + 2 ^ (bit_length p - 54)"
proof -
  define s where "s = bit_length p - 53"
  define q where "q = p div 2 ^ s"
  define r where "r = p mod 2 ^ s"
  define h :: nat where "h = 2 ^ (s - 1)"
  from assms have s: "0 < s" by (simp add: s_def)
  then have two_h: "2 ^ s = 2 * h"
    by (cases s) (simp_all add: h_def)
  have p: "p = q * 2 ^ s + r" unfolding q_def r_def by (rule div_mult_mod_eq [symmetric])
  have rlt: "r < 2 ^ s" by (simp add: r_def)
  have v: "round53 p = (if h < r \<or> (r = h \<and> odd q) then q + 1 else q) * 2 ^ s"
    using assms by (simp add: round53_def Let_def s_def q_def r_def h_def)
  have hh: "h = 2 ^ (bit_length p - 54)"
    by (simp add: h_def s_def)
  show ?thesis
  proof (cases "h < r \<or> (r = h \<and> odd q)")
    case True
    then have "h \<le> r" by auto
    have "round53 p = q * 2 ^ s + 2 ^ s" using True v by (simp add: algebra_simps)
    also have "\<dots> = q * 2 ^ s + 2 * h" by (simp add: two_h)
    also have "\<dots> \<le> q * 2 ^ s + r + h" using \<open>h \<le> r\<close> by simp
    also have "\<dots> = p + h" using p by simp
    finally show ?thesis by (simp add: hh)
  next
    case False
    then have "round53 p = q * 2 ^ s" using v by simp
    also have "\<dots> \<le> p" using p by simp
    finally show ?thesis by simp
  qed
qed

lemma round53_lower:
  assumes "2 ^ (bit_length p - 53) dvd a" and "a \<le> p"
  shows "a \<le> round53 p"
proof (cases "bit_length p \<le> 53")
  case True
  then show ?thesis using assms by (simp add: round53_def)
next
  case False
  define s where "s = bit_length p - 53"
  define q where "q = p div 2 ^ s"
  from assms(1) obtain c where a: "a = 2 ^ s * c" by (auto simp: s_def dvd_def)
  have "c = a div 2 ^ s" by (simp add: a)
  also have "\<dots> \<le> q" unfolding q_def using assms(2) by (rule div_le_mono)
  finally have "c \<le> q" .
  then have "a \<le> q * 2 ^ s" by (simp add: a mult.commute)
  also have "\<dots> \<le> round53 p"
    using False by (simp add: round53_def Let_def s_def q_def)
  finally show ?thesis .
qed

lemma num_test_of_div5:
  assumes n: "n < 2 ^ 52"
  shows "num_test_of n = n div 5"
proof -
  define k where "k = n div 5"
  define r where "r = n mod 5"
  define p where "p = double_0_2 * n"
  have n_eq: "n = 5 * k + r" and r: "r < 5" by (simp_all add: k_def r_def)
  have five_p: "5 * p = 2 ^ 54 * n + n" by (simp add: p_def double_0_2_def)
  have "n < 2 ^ 53" using n by simp
  then have rn: "round53 n = n" by (rule round53_small)
  have "p < 2 ^ 104" using n five_p by simp
  then have bl: "bit_length p \<le> 104" by (rule bit_length_le)
  have lower: "k * 2 ^ 54 \<le> round53 p"
  proof (rule round53_lower)
    have "(2::nat) ^ (bit_length p - 53) dvd 2 ^ 54"
      using bl by (intro le_imp_power_dvd) simp
    then show "2 ^ (bit_length p - 53) dvd k * 2 ^ 54" by simp
    show "k * 2 ^ 54 \<le> p" using five_p n_eq by simp
  qed
  have upper: "round53 p < (k + 1) * 2 ^ 54"
  proof (cases "53 < bit_length p")
    case True
    have "(2::nat) ^ (bit_length p - 54) \<le> 2 ^ 50"
      using bl by (intro power_increasing) simp_all
    with round53_upper [OF True] have "round53 p \<le> p + 2 ^ 50" by simp
    then have "5 * round53 p \<le> 5 * p + 5 * 2 ^ 50" by simp
    also have "\<dots> < 5 * ((k + 1) * 2 ^ 54)" using five_p n_eq r n by simp
    finally show ?thesis by simp
  next
    case False
    then have "round53 p = p" by (simp add: round53_def)
    moreover have "5 * p < 5 * ((k + 1) * 2 ^ 54)" using five_p n_eq r n by simp
    ultimately show ?thesis by simp
  qed
  have "round53 p div 2 ^ 54 = k"
    using lower upper by (intro div_nat_eqI) (simp_all add: mult.commute)
  then show ?thesis by (simp add: num_test_of_def rn p_def k_def)
qed

lemma floor_fifth: "nat \<lfloor>0.2 * real n\<rfloor> = n div 5"
proof -
  have "0.2 * real n = real n / real 5" by simp
  then have "\<lfloor>0.2 * real n\<rfloor> = int (n div 5)"
    by (simp only: floor_divide_of_nat_eq)
  then show ?thesis by simp
qed

lemma split_indices_zero:
  assumes "length indices = n" and "num_test_of n = 0"
  shows "split_indices indices = ([], indices)"
  using assms by (simp add: split_indices_def slice_to_def slice_from_def slice_bound_def)

lemma split_indices_pos:
  assumes "length indices = n" and "0 < num_test_of n" and "num_test_of n \<le> n"
  shows "split_indices indices =
           (take (n - num_test_of n) indices, drop (n - num_test_of n) indices)"
proof -
  have "slice_bound n (- 1 * int (num_test_of n)) = n - num_test_of n"
    using assms(2,3) by (auto simp add: slice_bound_def nat_diff_distrib')
  then show ?thesis
    using assms(1) by (simp add: split_indices_def slice_to_def slice_from_def Let_def)
qed

lemma is_randperm_2_0_1: "is_randperm 3 [2, 0, 1]"
  by (auto simp add: is_randperm_def)

lemma is_randperm_six: "is_randperm 6 [3, 1, 5, 0, 2, 4]"
  by (auto simp add: is_randperm_def)

text \<open>
  Claim C1 says that for every dataset of \<open>N\<close> examples the test subset has
  \<open>\<lfloor>0.2 N\<rfloor>\<close> indices and that the train and test indices partition all \<open>N\<close>. The code
  at three examples: \<open>\<lfloor>0.2 * 3\<rfloor>\<close> is 0, the slice \<^verbatim>\<open>indices[-0:]\<close> is the whole list,
  and the test subset has all three indices.
\<close>

theorem three_examples_all_tested:
  "is_randperm 3 [2, 0, 1] \<and> nat \<lfloor>0.2 * real (3::nat)\<rfloor> = 0 \<and>
   split_indices [2, 0, 1] = ([], [2, 0, 1]) \<and>
   length (snd (split_indices [2, 0, 1])) = 3"
proof -
  have "num_test_of 3 = 0"
    by (simp add: num_test_of_div5)
  then have "split_indices [2, 0, 1] = ([], [2, 0, 1])"
    by (intro split_indices_zero [where n = 3]) simp_all
  moreover have "nat \<lfloor>0.2 * real (3::nat)\<rfloor> = 0"
    unfolding floor_fifth by simp
  ultimately show ?thesis using is_randperm_2_0_1 by simp
qed

text \<open>
  Claim C2: for every dataset of \<open>N\<close> examples with \<open>1 \<le> N \<le> 4\<close>, the test count
  \<^verbatim>\<open>int(0.2 * N)\<close> is 0, the slice \<^verbatim>\<open>indices[: -1 * 0]\<close> is empty and the slice
  \<^verbatim>\<open>indices[-1 * 0 :]\<close> is the whole list: the training subset is empty and the test
  subset has all \<open>N\<close> indices.
\<close>

theorem small_dataset_split_inverted:
  assumes "is_randperm n indices" and "1 \<le> n" and "n \<le> 4"
  shows "int (num_test_of n) = 0 \<and>
         slice_to indices (- 1 * 0) = [] \<and>
         slice_from indices (- 1 * 0) = indices \<and>
         split_indices indices = ([], indices)"
proof -
  have len: "length indices = n" using assms(1) by (simp add: is_randperm_def)
  have "n < 2 ^ 52" using assms(3) by simp
  then have "num_test_of n = n div 5"
    by (rule num_test_of_div5)
  then have z: "num_test_of n = 0" using assms(3) by simp
  moreover have "slice_to indices (- 1 * 0) = []"
    by (simp add: slice_to_def slice_bound_def)
  moreover have "slice_from indices (- 1 * 0) = indices"
    by (simp add: slice_from_def slice_bound_def)
  moreover have "split_indices indices = ([], indices)"
    using len z by (rule split_indices_zero)
  ultimately show ?thesis by simp
qed

theorem small_dataset_split_inverted_witness:
  "is_randperm 3 [2, 0, 1] \<and> (1::nat) \<le> 3 \<and> (3::nat) \<le> 4 \<and>
   int (num_test_of 3) = 0 \<and> split_indices [2, 0, 1] = ([], [2, 0, 1])"
  using small_dataset_split_inverted [OF is_randperm_2_0_1] is_randperm_2_0_1 by simp

text \<open>
  Claim C3 says that the first \<open>N - \<lceil>0.2 N\<rceil>\<close> indices of the permutation feed the
  training subset and the trailing \<open>\<lceil>0.2 N\<rceil>\<close> the test subset. At six examples the
  ceiling is 2 and the code tests one index.
\<close>

theorem ceiling_split_counterexample:
  "is_randperm 6 [3, 1, 5, 0, 2, 4] \<and>
   split_indices [3, 1, 5, 0, 2, 4] = ([3, 1, 5, 0, 2], [4]) \<and>
   (take (6 - nat \<lceil>0.2 * real (6::nat)\<rceil>) [3, 1, 5, 0, 2, 4 :: nat],
    drop (6 - nat \<lceil>0.2 * real (6::nat)\<rceil>) [3, 1, 5, 0, 2, 4 :: nat]) = ([3, 1, 5, 0], [2, 4]) \<and>
   split_indices [3, 1, 5, 0, 2, 4]
     \<noteq> (take (6 - nat \<lceil>0.2 * real (6::nat)\<rceil>) [3, 1, 5, 0, 2, 4],
        drop (6 - nat \<lceil>0.2 * real (6::nat)\<rceil>) [3, 1, 5, 0, 2, 4])"
proof -
  have n: "num_test_of 6 = 1"
    by (simp add: num_test_of_div5)
  have s: "split_indices [3, 1, 5, 0, 2, 4] = ([3, 1, 5, 0, 2], [4])"
    using split_indices_pos [of "[3, 1, 5, 0, 2, 4]" 6] by (simp add: n)
  have c: "nat \<lceil>0.2 * real (6::nat)\<rceil> = 2" by simp
  show ?thesis unfolding s c using is_randperm_six by simp
qed

text \<open>
  Claim C3 as amended: for every dataset of \<open>N\<close> examples with \<open>5 \<le> N < 2 ^ 52\<close>, the
  first \<open>N - \<lfloor>0.2 N\<rfloor>\<close> indices of the permutation feed the training subset and the
  trailing \<open>\<lfloor>0.2 N\<rfloor>\<close> indices the test subset.
\<close>

theorem floor_split:
  assumes "is_randperm n indices" and "5 \<le> n" and "n < 2 ^ 52"
  shows "split_indices indices =
           (take (n - nat \<lfloor>0.2 * real n\<rfloor>) indices,
            drop (n - nat \<lfloor>0.2 * real n\<rfloor>) indices) \<and>
         length (fst (split_indices indices)) = n - nat \<lfloor>0.2 * real n\<rfloor> \<and>
         length (snd (split_indices indices)) = nat \<lfloor>0.2 * real n\<rfloor>"
proof -
  have len: "length indices = n" using assms(1) by (simp add: is_randperm_def)
  have k: "num_test_of n = n div 5"
    using assms(3) by (rule num_test_of_div5)
  have "0 < num_test_of n" "num_test_of n \<le> n"
    using assms(2) by (simp_all add: k)
  with len have "split_indices indices =
           (take (n - num_test_of n) indices, drop (n - num_test_of n) indices)"
    by (rule split_indices_pos)
  then show ?thesis unfolding floor_fifth using len by (simp add: k)
qed

theorem floor_split_witness:
  "is_randperm 6 [3, 1, 5, 0, 2, 4] \<and> (5::nat) \<le> 6 \<and> (6::nat) < 2 ^ 52 \<and>
   split_indices [3, 1, 5, 0, 2, 4] = ([3, 1, 5, 0, 2], [4])"
proof -
  have "nat \<lfloor>0.2 * real (6::nat)\<rfloor> = 1" unfolding floor_fifth by simp
  then show ?thesis
    using floor_split [OF is_randperm_six] is_randperm_six by simp
qed

section \<open>Labels\<close>

lemma splitlines_empty_iff: "splitlines content = [] \<longleftrightarrow> content = []"
  by (induction content rule: splitlines.induct) (auto split: list.splits)

lemma load_labels_nonempty:
  assumes "content \<noteq> []"
  shows "load_labels content = Some (background # splitlines content)"
  using assms
  by (simp add: load_labels_def list_insert_def slice_bound_def splitlines_empty_iff)

lemma load_labels_empty: "load_labels [] = None"
  by (simp add: load_labels_def)

text \<open>
  Claim C4: for every label file with at least one non-empty line, the loaded label set
  has one entry more than the file has lines, its entry at index 0 is the
  \<^verbatim>\<open>"background"\<close> sentinel, and the lines of the file follow in file order.
\<close>

theorem labels_after_load:
  assumes "\<exists>l \<in> set (splitlines content). l \<noteq> []"
  shows "\<exists>labels. load_labels content = Some labels \<and>
           length labels = length (splitlines content) + 1 \<and>
           labels ! 0 = background \<and>
           drop 1 labels = splitlines content"
proof -
  from assms have "splitlines content \<noteq> []" by auto
  then have "content \<noteq> []" by (simp add: splitlines_empty_iff)
  then have "load_labels content = Some (background # splitlines content)"
    by (rule load_labels_nonempty)
  then show ?thesis by simp
qed

lemma splitlines_cat_dog:
  "splitlines (map of_char ''cat\<newline>dog\<newline>'') = [map of_char ''cat'', map of_char ''dog'']"
  by (simp add: is_linebreak_def)

theorem labels_after_load_witness:
  "(\<exists>l \<in> set (splitlines (map of_char ''cat\<newline>dog\<newline>'')). l \<noteq> []) \<and>
   load_labels (map of_char ''cat\<newline>dog\<newline>'')
     = Some [background, map of_char ''cat'', map of_char ''dog'']"
proof -
  have h: "\<exists>l \<in> set (splitlines (map of_char ''cat\<newline>dog\<newline>'')). l \<noteq> []"
    unfolding splitlines_cat_dog by simp
  from labels_after_load [OF h] obtain labels where
    l: "load_labels (map of_char ''cat\<newline>dog\<newline>'') = Some labels"
    and "labels ! 0 = background"
    and "drop 1 labels = splitlines (map of_char ''cat\<newline>dog\<newline>'')"
    by blast
  then have "labels = [background, map of_char ''cat'', map of_char ''dog'']"
    unfolding splitlines_cat_dog by (cases labels) simp_all
  with h l show ?thesis by simp
qed

section \<open>The shape of a run\<close>

lemma main_cases:
  "main cfg w =
     (case files w (label_path cfg w) of
        None \<Rightarrow> (sync_calls cfg w @ [Print (''Missing file '' @ label_path cfg w)], Returned)
      | Some content \<Rightarrow>
          (case load_labels content of
             None \<Rightarrow>
               (sync_calls cfg w @ [Print (''No label categories found in '' @ label_path cfg w)],
                Returned)
           | Some labels \<Rightarrow>
               (sync_calls cfg w
                  @ fst (train cfg w (time_time w) (fst (bucket_check w)) labels),
                snd (train cfg w (time_time w) (fst (bucket_check w)) labels))))"
  by (simp add: main_def sync_calls_def label_path_def Let_def
           split: prod.splits option.splits)

lemma train_cases:
  "train cfg w start_time use_s3 labels =
     (if network (FLAGS w) \<notin> set (models w) then (prepare cfg w labels, Raised KeyError)
      else case epoch_loop w (py_range (num_epochs (FLAGS w))) [] [] of
             (epochs, Inl e) \<Rightarrow>
               (prepare cfg w labels
                  @ [Model (network (FLAGS w)) (length labels),
                     Print (''Training for '' @ str_int (num_epochs (FLAGS w)) @ '' epochs'')]
                  @ epochs,
                Raised e)
           | (epochs, Inr (ap, ar)) \<Rightarrow>
               (prepare cfg w labels
                  @ [Model (network (FLAGS w)) (length labels),
                     Print (''Training for '' @ str_int (num_epochs (FLAGS w)) @ '' epochs'')]
                  @ epochs
                  @ save_and_publish cfg (FLAGS w) start_time use_s3 ap ar,
                Returned))"
  by (simp add: train_def Let_def split: prod.splits sum.splits)

lemma train_starts_with_prepare:
  "\<exists>post. fst (train cfg w start_time use_s3 labels) = prepare cfg w labels @ post"
  by (simp add: train_cases split: prod.splits sum.splits)

lemma train_Returned:
  assumes "snd (train cfg w start_time use_s3 labels) = Returned"
  shows "\<exists>epochs ap ar.
           epoch_loop w (py_range (num_epochs (FLAGS w))) [] [] = (epochs, Inr (ap, ar)) \<and>
           fst (train cfg w start_time use_s3 labels) =
             prepare cfg w labels
               @ [Model (network (FLAGS w)) (length labels),
                  Print (''Training for '' @ str_int (num_epochs (FLAGS w)) @ '' epochs'')]
               @ epochs
               @ save_and_publish cfg (FLAGS w) start_time use_s3 ap ar"
  using assms by (auto simp add: train_cases split: if_splits prod.splits sum.splits)

lemma bucket_check_no_bucket:
  assumes "s3_bucket_name (FLAGS w) = None"
  shows "bucket_check w = (False, [])"
  using assms by (simp add: bucket_check_def)

lemma bucket_check_no_access:
  assumes "s3_bucket_name (FLAGS w) = Some b" and "\<not> s3_bucket_exists w b"
  shows "bucket_check w =
           (False,
            [S3_bucket_exists (Some b),
             Print (''Bucket: '' @ b @ '' either does not exist or you do not have access to it'')])"
  using assms by (simp add: bucket_check_def str_opt_def)

lemma sync_calls_no_dataset: "filter is_dataset_construction (sync_calls cfg w) = []"
  by (simp add: sync_calls_def bucket_check_def download_all_def
           split: prod.splits option.splits if_splits)

lemma sync_calls_no_artifact: "filter is_artifact_write (sync_calls cfg w) = []"
  by (simp add: sync_calls_def bucket_check_def download_all_def
           split: prod.splits option.splits if_splits)

lemma prepare_no_network_io: "filter is_network_io (prepare cfg w labels) = []"
  by (simp add: prepare_def Let_def split: prod.splits)

lemma prepare_no_artifact: "filter is_artifact_write (prepare cfg w labels) = []"
  by (simp add: prepare_def Let_def split: prod.splits)

lemma prepare_no_plot: "filter is_plot (prepare cfg w labels) = []"
  by (simp add: prepare_def Let_def split: prod.splits)

lemma epoch_loop_calls:
  assumes "\<And>e. \<not> P (Train_one_epoch e)" and "\<not> P Lr_scheduler_step"
    and "\<And>e. \<not> P (Evaluate e)"
  shows "filter P (fst (epoch_loop w es ap ar)) = []"
proof (induction es arbitrary: ap ar)
  case Nil
  show ?case by simp
next
  case (Cons e es)
  have rest: "filter P more = []" if "epoch_loop w es a b = (more, res)" for a b more res
    using Cons.IH [of a b] that by simp
  show ?case
    by (auto simp add: Let_def assms split: option.splits sum.splits prod.splits intro: rest)
qed

lemma epoch_loop_no_network_io:
  "filter is_network_io (fst (epoch_loop w es ap ar)) = []"
  by (rule epoch_loop_calls) simp_all

lemma epoch_loop_no_artifact:
  "filter is_artifact_write (fst (epoch_loop w es ap ar)) = []"
  by (rule epoch_loop_calls) simp_all

lemma epoch_loop_no_plot:
  "filter is_plot (fst (epoch_loop w es ap ar)) = []"
  by (rule epoch_loop_calls) simp_all

lemma epoch_loop_histories:
  assumes "epoch_loop w es ap ar = (calls, Inr (ap', ar'))"
  shows "ap' = ap @ map (\<lambda>e. the (coco_eval w e ''bbox'') ! AVERAGE_PRECISION_STAT_INDEX) es \<and>
         ar' = ar @ map (\<lambda>e. the (coco_eval w e ''bbox'') ! AVERAGE_RECALL_STAT_INDEX) es \<and>
         (\<forall>e \<in> set es. \<exists>stats. coco_eval w e ''bbox'' = Some stats
                              \<and> AVERAGE_PRECISION_STAT_INDEX < length stats
                              \<and> AVERAGE_RECALL_STAT_INDEX < length stats)"
  using assms
proof (induction es arbitrary: ap ar calls)
  case Nil
  then show ?case by simp
next
  case (Cons e es)
  from Cons.prems obtain stats where
    st: "coco_eval w e ''bbox'' = Some stats"
    by (auto simp add: Let_def split: option.splits)
  from Cons.prems st have
    p: "AVERAGE_PRECISION_STAT_INDEX < length stats"
    by (auto simp add: Let_def stat_at_def split: if_splits)
  from Cons.prems st p have
    r: "AVERAGE_RECALL_STAT_INDEX < length stats"
    by (auto simp add: Let_def stat_at_def split: if_splits)
  from Cons.prems st p r obtain more where
    "epoch_loop w es (ap @ [stats ! AVERAGE_PRECISION_STAT_INDEX])
       (ar @ [stats ! AVERAGE_RECALL_STAT_INDEX]) = (more, Inr (ap', ar'))"
    by (auto simp add: Let_def stat_at_def split: prod.splits)
  from Cons.IH [OF this] st p r show ?case by simp
qed

section \<open>The example run\<close>

lemma split_six: "split_indices [3, 1, 5, 0, 2, 4] = ([3, 1, 5, 0, 2], [4])"
proof -
  have "num_test_of 6 = 1" by (simp add: num_test_of_div5)
  then show ?thesis
    using split_indices_pos [of "[3, 1, 5, 0, 2, 4]" 6] by simp
qed

lemma label_path_example: "label_path example_settings example_world = ''data/labels.txt''"
  by (simp add: label_path_def example_settings_def example_world_def example_flags_def
        path_join_def)

lemma labels_example:
  "load_labels (map of_char ''cat\<newline>dog\<newline>'')
     = Some [background, map of_char ''cat'', map of_char ''dog'']"
  using load_labels_nonempty [of "map of_char ''cat\<newline>dog\<newline>''"]
  unfolding splitlines_cat_dog by simp

lemma manifest_example:
  "get_newest_manifest_path example_settings
     (\<lambda>d. if d = ''data/manifests'' then [''a_3.json'', ''a_10.json'', ''a_2.json''] else [])
     ''data/manifests'' = Some ''data/manifests/a_10.json''"
  by (simp add: get_newest_manifest_path_def get_highest_numbered_file_def candidates_def
        has_file_type_def file_number_def is_digit_def digit_value_def path_join_def
        example_settings_def)

lemma prepare_example:
  "prepare example_settings example_world labels =
     [Print ''Using device:  cpu'',
      BojaDataSet ''data/images'' ''data/annotations'' (Some ''data/manifests/a_10.json'')
        [ToTensor, RandomHorizontalFlip (1 / 2)] labels,
      BojaDataSet ''data/images'' ''data/annotations'' (Some ''data/manifests/a_10.json'')
        [ToTensor] labels,
      Print ''Training dataset size: 5, Testing dataset size: 1'',
      DataLoader [3, 1, 5, 0, 2] True,
      DataLoader [4] False]"
proof -
  have m: "get_newest_manifest_path example_settings (listdir example_world)
             (path_join (local_data_dir (FLAGS example_world)) (MANIFEST_DIR_NAME example_settings))
           = Some ''data/manifests/a_10.json''"
    using manifest_example
    by (simp add: example_world_def example_flags_def example_settings_def path_join_def)
  have s: "split_indices (randperm example_world (dataset_len example_world))
             = ([3, 1, 5, 0, 2], [4])"
    using split_six by (simp add: example_world_def)
  show ?thesis
    unfolding prepare_def Let_def m s
    by (simp add: example_world_def example_flags_def example_settings_def path_join_def
          get_transform_def str_int_def str_nat.simps)
qed

lemma epoch_loop_example:
  "epoch_loop example_world (py_range 2) [] [] =
     ([Train_one_epoch 0, Lr_scheduler_step, Evaluate 0,
       Train_one_epoch 1, Lr_scheduler_step, Evaluate 1],
      Inr ([0, 100], [8, 108]))"
proof -
  have r: "py_range 2 = [0, 1]" by (simp add: py_range_def upt_rec)
  have c: "coco_eval example_world e ''bbox'' = Some (map (\<lambda>i. 100 * e + i) [0..<12])" for e
    by (simp add: example_world_def)
  show ?thesis
    unfolding r
    by (simp add: c stat_at_def AVERAGE_PRECISION_STAT_INDEX_def AVERAGE_RECALL_STAT_INDEX_def
          del: upt.simps upt_Suc)
qed

lemma save_example:
  "save_and_publish example_settings example_flags 1600000000 False ap ar =
     [Create_output_dir ''data/modelstates'',
      Torch_save ''data/modelstates/1600000000-net.pt'',
      Print ''Model state saved at: data/modelstates/1600000000-net.pt'',
      Plt_plot ap ''AP: IoU=0.50:0.95 maxDets=100'',
      Plt_plot ar ''AR: IoU=0.50:0.95 maxDets=100'',
      Plt_legend ''lower right'',
      Plt_title ''Evaluation data from 1600000000-net'',
      Create_output_dir ''data/logs'',
      Plt_savefig ''data/logs/1600000000-net.jpg'',
      Print ''Log file saved at: data/logs/1600000000-net.jpg'',
      Print ''Training complete'']"
proof -
  have "str_int 1600000000 = ''1600000000''"
    by (simp add: str_int_def str_nat.simps)
  then show ?thesis
    by (simp add: save_and_publish_def Let_def example_settings_def example_flags_def
          path_join_def)
qed

lemma train_example:
  "train example_settings example_world 1600000000 False labels =
     (prepare example_settings example_world labels
        @ [Model ''net'' (length labels), Print ''Training for 2 epochs'',
           Train_one_epoch 0, Lr_scheduler_step, Evaluate 0,
           Train_one_epoch 1, Lr_scheduler_step, Evaluate 1]
        @ save_and_publish example_settings example_flags 1600000000 False [0, 100] [8, 108],
      Returned)"
proof -
  have f: "FLAGS example_world = example_flags" by (simp add: example_world_def)
  have n: "num_epochs example_flags = 2" "network example_flags = ''net''"
    by (simp_all add: example_flags_def)
  have m: "models example_world = [''net'']" by (simp add: example_world_def)
  have s: "str_int 2 = ''2''" by (simp add: str_int_def str_nat.simps)
  show ?thesis
    unfolding train_cases f n m epoch_loop_example by (simp add: s)
qed

lemma main_example:
  "main example_settings example_world =
     (prepare example_settings example_world [background, map of_char ''cat'', map of_char ''dog'']
        @ [Model ''net'' 3, Print ''Training for 2 epochs'',
           Train_one_epoch 0, Lr_scheduler_step, Evaluate 0,
           Train_one_epoch 1, Lr_scheduler_step, Evaluate 1]
        @ save_and_publish example_settings example_flags 1600000000 False [0, 100] [8, 108],
      Returned)"
proof -
  have b: "bucket_check example_world = (False, [])"
    by (rule bucket_check_no_bucket) (simp add: example_world_def example_flags_def)
  have sc: "sync_calls example_settings example_world = []"
    by (simp add: sync_calls_def b)
  have fl: "files example_world ''data/labels.txt'' = Some (map of_char ''cat\<newline>dog\<newline>'')"
    by (simp add: example_world_def)
  have t: "time_time example_world = 1600000000" by (simp add: example_world_def)
  show ?thesis
    unfolding main_cases label_path_example fl option.case labels_example sc b t
    by (simp add: train_example)
qed

section \<open>Label file absent or empty\<close>

lemma main_no_label_file:
  "main example_settings example_world_no_label_file
     = ([Print ''Missing file data/labels.txt''], Returned)"
proof -
  have b: "bucket_check example_world_no_label_file = (False, [])"
    by (rule bucket_check_no_bucket)
       (simp add: example_world_no_label_file_def example_world_def example_flags_def)
  have sc: "sync_calls example_settings example_world_no_label_file = []"
    by (simp add: sync_calls_def b)
  have lp: "label_path example_settings example_world_no_label_file = ''data/labels.txt''"
    by (simp add: label_path_def example_world_no_label_file_def example_world_def
          example_flags_def example_settings_def path_join_def)
  have fl: "files example_world_no_label_file p = None" for p
    by (simp add: example_world_no_label_file_def)
  show ?thesis
    unfolding main_cases lp fl option.case sc by simp
qed

lemma main_empty_label_file:
  "main example_settings example_world_empty_label_file
     = ([Print ''No label categories found in data/labels.txt''], Returned)"
proof -
  have b: "bucket_check example_world_empty_label_file = (False, [])"
    by (rule bucket_check_no_bucket)
       (simp add: example_world_empty_label_file_def example_world_def example_flags_def)
  have sc: "sync_calls example_settings example_world_empty_label_file = []"
    by (simp add: sync_calls_def b)
  have lp: "label_path example_settings example_world_empty_label_file = ''data/labels.txt''"
    by (simp add: label_path_def example_world_empty_label_file_def example_world_def
          example_flags_def example_settings_def path_join_def)
  have fl: "files example_world_empty_label_file p = Some []" for p
    by (simp add: example_world_empty_label_file_def)
  show ?thesis
    unfolding main_cases lp fl option.case load_labels_empty sc by simp
qed

text \<open>
  Claim C5: for every run whose label file is absent or empty, \<^verbatim>\<open>main\<close> prints a message
  and returns before any dataset construction, writes no weights file and no plot file,
  and the process exits with code 0.
\<close>

theorem label_file_absent_or_empty:
  assumes "files w (label_path cfg w) = None \<or> files w (label_path cfg w) = Some []"
  shows "(\<exists>msg. main cfg w = (sync_calls cfg w @ [Print msg], Returned)) \<and>
         exit_code (snd (main cfg w)) = 0 \<and>
         filter is_dataset_construction (fst (main cfg w)) = [] \<and>
         filter is_artifact_write (fst (main cfg w)) = []"
proof -
  from assms
  have "main cfg w = (sync_calls cfg w @ [Print (''Missing file '' @ label_path cfg w)], Returned)
      \<or> main cfg w =
          (sync_calls cfg w @ [Print (''No label categories found in '' @ label_path cfg w)],
           Returned)"
    by (auto simp add: main_cases load_labels_empty)
  then obtain msg where m: "main cfg w = (sync_calls cfg w @ [Print msg], Returned)"
    by blast
  then show ?thesis
    by (simp add: exit_code_def sync_calls_no_dataset sync_calls_no_artifact)
qed

theorem label_file_absent_or_empty_witness:
  "(files example_world_no_label_file (label_path example_settings example_world_no_label_file)
      = None
    \<or> files example_world_no_label_file (label_path example_settings example_world_no_label_file)
      = Some []) \<and>
   main example_settings example_world_no_label_file
     = ([Print ''Missing file data/labels.txt''], Returned) \<and>
   (files example_world_empty_label_file
      (label_path example_settings example_world_empty_label_file) = None
    \<or> files example_world_empty_label_file
      (label_path example_settings example_world_empty_label_file) = Some []) \<and>
   main example_settings example_world_empty_label_file
     = ([Print ''No label categories found in data/labels.txt''], Returned) \<and>
   exit_code (snd (main example_settings example_world_no_label_file)) = 0 \<and>
   exit_code (snd (main example_settings example_world_empty_label_file)) = 0 \<and>
   filter is_dataset_construction (fst (main example_settings example_world_no_label_file)) = [] \<and>
   filter is_artifact_write (fst (main example_settings example_world_no_label_file)) = [] \<and>
   filter is_dataset_construction (fst (main example_settings example_world_empty_label_file)) = [] \<and>
   filter is_artifact_write (fst (main example_settings example_world_empty_label_file)) = []"
proof -
  have h: "files example_world_no_label_file
             (label_path example_settings example_world_no_label_file) = None
         \<or> files example_world_no_label_file
             (label_path example_settings example_world_no_label_file) = Some []"
    by (simp add: example_world_no_label_file_def)
  have h': "files example_world_empty_label_file
             (label_path example_settings example_world_empty_label_file) = None
         \<or> files example_world_empty_label_file
             (label_path example_settings example_world_empty_label_file) = Some []"
    by (simp add: example_world_empty_label_file_def)
  from label_file_absent_or_empty [OF h] label_file_absent_or_empty [OF h']
    h h' main_no_label_file main_empty_label_file
  show ?thesis by simp
qed

section \<open>No manifest\<close>

text \<open>
  Claim C6: for every run in which manifest discovery finds no manifest file,
  \<^verbatim>\<open>main\<close> only prints a message and does not abort: the next calls are the device
  message and the construction of the two datasets with \<^verbatim>\<open>None\<close> as the manifest.
\<close>

theorem missing_manifest_only_logged:
  assumes "files w (label_path cfg w) = Some content"
    and "load_labels content = Some labels"
    and "get_newest_manifest_path cfg (listdir w)
           (path_join (local_data_dir (FLAGS w)) (MANIFEST_DIR_NAME cfg)) = None"
  shows "\<exists>post.
           fst (main cfg w) =
             sync_calls cfg w
             @ [Print (''Cannot find a manifest file in: ''
                       @ path_join (local_data_dir (FLAGS w)) (MANIFEST_DIR_NAME cfg)),
                Print (''Using device:  '' @ (if cuda_is_available w then ''cuda'' else ''cpu'')),
                BojaDataSet (path_join (local_data_dir (FLAGS w)) (IMAGE_DIR_NAME cfg))
                  (path_join (local_data_dir (FLAGS w)) (ANNOTATION_DIR_NAME cfg))
                  None (get_transform True) labels,
                BojaDataSet (path_join (local_data_dir (FLAGS w)) (IMAGE_DIR_NAME cfg))
                  (path_join (local_data_dir (FLAGS w)) (ANNOTATION_DIR_NAME cfg))
                  None (get_transform False) labels]
             @ post"
proof -
  obtain rest where
    r: "fst (train cfg w (time_time w) (fst (bucket_check w)) labels)
          = prepare cfg w labels @ rest"
    using train_starts_with_prepare by blast
  have "\<exists>loaders. prepare cfg w labels =
          [Print (''Cannot find a manifest file in: ''
                  @ path_join (local_data_dir (FLAGS w)) (MANIFEST_DIR_NAME cfg)),
           Print (''Using device:  '' @ (if cuda_is_available w then ''cuda'' else ''cpu'')),
           BojaDataSet (path_join (local_data_dir (FLAGS w)) (IMAGE_DIR_NAME cfg))
             (path_join (local_data_dir (FLAGS w)) (ANNOTATION_DIR_NAME cfg))
             None (get_transform True) labels,
           BojaDataSet (path_join (local_data_dir (FLAGS w)) (IMAGE_DIR_NAME cfg))
             (path_join (local_data_dir (FLAGS w)) (ANNOTATION_DIR_NAME cfg))
             None (get_transform False) labels] @ loaders"
    using assms(3) by (simp add: prepare_def Let_def split: prod.splits)
  then obtain loaders where p: "prepare cfg w labels =
          [Print (''Cannot find a manifest file in: ''
                  @ path_join (local_data_dir (FLAGS w)) (MANIFEST_DIR_NAME cfg)),
           Print (''Using device:  '' @ (if cuda_is_available w then ''cuda'' else ''cpu'')),
           BojaDataSet (path_join (local_data_dir (FLAGS w)) (IMAGE_DIR_NAME cfg))
             (path_join (local_data_dir (FLAGS w)) (ANNOTATION_DIR_NAME cfg))
             None (get_transform True) labels,
           BojaDataSet (path_join (local_data_dir (FLAGS w)) (IMAGE_DIR_NAME cfg))
             (path_join (local_data_dir (FLAGS w)) (ANNOTATION_DIR_NAME cfg))
             None (get_transform False) labels] @ loaders"
    by blast
  have "fst (main cfg w) = sync_calls cfg w @ prepare cfg w labels @ rest"
    using assms(1,2) r by (simp add: main_cases)
  then show ?thesis unfolding p by simp
qed

theorem missing_manifest_only_logged_witness:
  "files example_world_no_manifest (label_path example_settings example_world_no_manifest)
     = Some (map of_char ''cat\<newline>dog\<newline>'') \<and>
   load_labels (map of_char ''cat\<newline>dog\<newline>'')
     = Some [background, map of_char ''cat'', map of_char ''dog''] \<and>
   get_newest_manifest_path example_settings (listdir example_world_no_manifest)
     (path_join (local_data_dir (FLAGS example_world_no_manifest))
        (MANIFEST_DIR_NAME example_settings)) = None \<and>
   (\<exists>post.
      fst (main example_settings example_world_no_manifest) =
        [Print ''Cannot find a manifest file in: data/manifests'',
         Print ''Using device:  cpu'',
         BojaDataSet ''data/images'' ''data/annotations'' None
           [ToTensor, RandomHorizontalFlip (1 / 2)]
           [background, map of_char ''cat'', map of_char ''dog''],
         BojaDataSet ''data/images'' ''data/annotations'' None [ToTensor]
           [background, map of_char ''cat'', map of_char ''dog'']]
        @ post)"
proof -
  have lp: "label_path example_settings example_world_no_manifest = ''data/labels.txt''"
    by (simp add: label_path_def example_world_no_manifest_def example_world_def
          example_flags_def example_settings_def path_join_def)
  have f: "files example_world_no_manifest (label_path example_settings example_world_no_manifest)
             = Some (map of_char ''cat\<newline>dog\<newline>'')"
    unfolding lp by (simp add: example_world_no_manifest_def example_world_def)
  have m: "get_newest_manifest_path example_settings (listdir example_world_no_manifest)
             (path_join (local_data_dir (FLAGS example_world_no_manifest))
                (MANIFEST_DIR_NAME example_settings)) = None"
    by (simp add: get_newest_manifest_path_def get_highest_numbered_file_def candidates_def
          example_world_no_manifest_def)
  have b: "bucket_check example_world_no_manifest = (False, [])"
    by (rule bucket_check_no_bucket)
       (simp add: example_world_no_manifest_def example_world_def example_flags_def)
  have sc: "sync_calls example_settings example_world_no_manifest = []"
    by (simp add: sync_calls_def b)
  have v: "path_join (local_data_dir (FLAGS example_world_no_manifest))
             (MANIFEST_DIR_NAME example_settings) = ''data/manifests''"
      "path_join (local_data_dir (FLAGS example_world_no_manifest))
             (IMAGE_DIR_NAME example_settings) = ''data/images''"
      "path_join (local_data_dir (FLAGS example_world_no_manifest))
             (ANNOTATION_DIR_NAME example_settings) = ''data/annotations''"
      "cuda_is_available example_world_no_manifest = False"
    by (simp_all add: example_world_no_manifest_def example_world_def
          example_flags_def example_settings_def path_join_def)
  have g: "get_transform True = [ToTensor, RandomHorizontalFlip (1 / 2)]"
      "get_transform False = [ToTensor]"
    by (simp_all add: get_transform_def)
  from missing_manifest_only_logged [OF f labels_example m]
  have "\<exists>post.
      fst (main example_settings example_world_no_manifest) =
        [Print ''Cannot find a manifest file in: data/manifests'',
         Print ''Using device:  cpu'',
         BojaDataSet ''data/images'' ''data/annotations'' None
           [ToTensor, RandomHorizontalFlip (1 / 2)]
           [background, map of_char ''cat'', map of_char ''dog''],
         BojaDataSet ''data/images'' ''data/annotations'' None [ToTensor]
           [background, map of_char ''cat'', map of_char ''dog'']]
        @ post"
    unfolding sc v g by simp
  with f labels_example m show ?thesis by blast
qed

section \<open>Manifest discovery\<close>

lemma highest_None_iff: "highest cs best = None \<longleftrightarrow> cs = [] \<and> best = None"
  by (induction cs best rule: highest.induct) (auto split: option.splits)

lemma highest_result:
  assumes "highest cs best = Some (f, n)"
  shows "((f, n) \<in> set cs \<or> best = Some (f, n)) \<and>
         (\<forall>(g, m) \<in> set cs. m \<le> n) \<and>
         (\<forall>g m. best = Some (g, m) \<longrightarrow> m \<le> n)"
  using assms
proof (induction cs best rule: highest.induct)
  case (1 best)
  then show ?case by simp
next
  case (2 f' n' rest best)
  define best' where
    "best' = (case best of None \<Rightarrow> Some (f', n')
              | Some (g, m) \<Rightarrow> if m < n' then Some (f', n') else Some (g, m))"
  from "2.prems" have h: "highest rest best' = Some (f, n)"
    by (simp add: best'_def)
  from "2.IH" [OF h [unfolded best'_def]]
  have ih: "((f, n) \<in> set rest \<or> best' = Some (f, n)) \<and>
            (\<forall>(g, m) \<in> set rest. m \<le> n) \<and>
            (\<forall>g m. best' = Some (g, m) \<longrightarrow> m \<le> n)"
    by (simp add: best'_def)
  show ?case
  proof (cases best)
    case None
    then have "best' = Some (f', n')" by (simp add: best'_def)
    with ih None show ?thesis by auto
  next
    case (Some gm)
    obtain g m where gm: "gm = (g, m)" by (cases gm)
    show ?thesis
    proof (cases "m < n'")
      case True
      then have "best' = Some (f', n')" using Some gm by (simp add: best'_def)
      with ih Some gm True show ?thesis by auto
    next
      case False
      then have "best' = Some (g, m)" using Some gm by (simp add: best'_def)
      with ih Some gm False show ?thesis by auto
    qed
  qed
qed

lemma in_candidates:
  "(f, n) \<in> set (candidates ext names) \<longleftrightarrow>
     f \<in> set names \<and> has_file_type ext f \<and> file_number ext f = Some n"
  by (auto simp add: candidates_def split: option.splits if_splits)

text \<open>
  Claim C7: for every manifest directory, manifest discovery returns the path of the file
  of the manifest extension whose name embeds the highest integer; over a directory
  containing \<^verbatim>\<open>a_3.json\<close>, \<^verbatim>\<open>a_10.json\<close> and \<^verbatim>\<open>a_2.json\<close> it returns the path
  for \<^verbatim>\<open>a_10.json\<close>.
\<close>

theorem newest_manifest_has_highest_number:
  "((\<exists>f0 \<in> set (ls dir). \<exists>n0. has_file_type (MANIFEST_FILE_TYPE cfg) f0
         \<and> file_number (MANIFEST_FILE_TYPE cfg) f0 = Some n0) \<longrightarrow>
    (\<exists>f n. get_newest_manifest_path cfg ls dir = Some (path_join dir f) \<and>
           f \<in> set (ls dir) \<and>
           has_file_type (MANIFEST_FILE_TYPE cfg) f \<and>
           file_number (MANIFEST_FILE_TYPE cfg) f = Some n \<and>
           (\<forall>g \<in> set (ls dir). \<forall>m.
              has_file_type (MANIFEST_FILE_TYPE cfg) g
              \<and> file_number (MANIFEST_FILE_TYPE cfg) g = Some m \<longrightarrow> m \<le> n))) \<and>
   get_newest_manifest_path example_settings
     (\<lambda>d. if d = ''data/manifests'' then [''a_3.json'', ''a_10.json'', ''a_2.json''] else [])
     ''data/manifests'' = Some ''data/manifests/a_10.json''"
proof (intro conjI impI)
  let ?ext = "MANIFEST_FILE_TYPE cfg"
  assume "\<exists>f0 \<in> set (ls dir). \<exists>n0. has_file_type ?ext f0 \<and> file_number ?ext f0 = Some n0"
  then obtain f0 n0 where "(f0, n0) \<in> set (candidates ?ext (ls dir))"
    by (auto simp add: in_candidates)
  then have "candidates ?ext (ls dir) \<noteq> []" by auto
  then have "highest (candidates ?ext (ls dir)) None \<noteq> None"
    by (simp add: highest_None_iff)
  then obtain f n where h: "highest (candidates ?ext (ls dir)) None = Some (f, n)"
    by (cases "highest (candidates ?ext (ls dir)) None") auto
  from highest_result [OF h]
  have c: "(f, n) \<in> set (candidates ?ext (ls dir))"
    and mx: "\<forall>(g, m) \<in> set (candidates ?ext (ls dir)). m \<le> n"
    by auto
  have "get_newest_manifest_path cfg ls dir = Some (path_join dir f)"
    by (simp add: get_newest_manifest_path_def get_highest_numbered_file_def h)
  moreover from c have "f \<in> set (ls dir)" "has_file_type ?ext f" "file_number ?ext f = Some n"
    by (simp_all add: in_candidates)
  moreover have "\<forall>g \<in> set (ls dir). \<forall>m.
      has_file_type ?ext g \<and> file_number ?ext g = Some m \<longrightarrow> m \<le> n"
  proof (intro ballI allI impI)
    fix g m
    assume "g \<in> set (ls dir)" and "has_file_type ?ext g \<and> file_number ?ext g = Some m"
    then have "(g, m) \<in> set (candidates ?ext (ls dir))" by (simp add: in_candidates)
    with mx show "m \<le> n" by auto
  qed
  ultimately show "\<exists>f n. get_newest_manifest_path cfg ls dir = Some (path_join dir f) \<and>
           f \<in> set (ls dir) \<and> has_file_type ?ext f \<and> file_number ?ext f = Some n \<and>
           (\<forall>g \<in> set (ls dir). \<forall>m.
              has_file_type ?ext g \<and> file_number ?ext g = Some m \<longrightarrow> m \<le> n)"
    by blast
next
  show "get_newest_manifest_path example_settings
     (\<lambda>d. if d = ''data/manifests'' then [''a_3.json'', ''a_10.json'', ''a_2.json''] else [])
     ''data/manifests'' = Some ''data/manifests/a_10.json''"
    by (rule manifest_example)
qed

lemma file_numbers_example:
  "has_file_type ''json'' ''a_3.json''" "file_number ''json'' ''a_3.json'' = Some 3"
  "has_file_type ''json'' ''a_10.json''" "file_number ''json'' ''a_10.json'' = Some 10"
  "has_file_type ''json'' ''a_2.json''" "file_number ''json'' ''a_2.json'' = Some 2"
  by (simp_all add: has_file_type_def file_number_def is_digit_def digit_value_def)

theorem newest_manifest_has_highest_number_witness:
  "(\<exists>f0 \<in> set [''a_3.json'', ''a_10.json'', ''a_2.json'']. \<exists>n0.
      has_file_type (MANIFEST_FILE_TYPE example_settings) f0
      \<and> file_number (MANIFEST_FILE_TYPE example_settings) f0 = Some n0) \<and>
   (\<exists>f n. get_newest_manifest_path example_settings
            (\<lambda>d. [''a_3.json'', ''a_10.json'', ''a_2.json'']) ''data/manifests''
            = Some (path_join ''data/manifests'' f) \<and>
          f \<in> set [''a_3.json'', ''a_10.json'', ''a_2.json''] \<and>
          file_number ''json'' f = Some n \<and> 10 \<le> n)"
proof -
  have e: "MANIFEST_FILE_TYPE example_settings = ''json''"
    by (simp add: example_settings_def)
  have h: "\<exists>f0 \<in> set [''a_3.json'', ''a_10.json'', ''a_2.json'']. \<exists>n0.
      has_file_type (MANIFEST_FILE_TYPE example_settings) f0
      \<and> file_number (MANIFEST_FILE_TYPE example_settings) f0 = Some n0"
    unfolding e using file_numbers_example by simp
  from newest_manifest_has_highest_number
         [of "\<lambda>d. [''a_3.json'', ''a_10.json'', ''a_2.json'']" "''data/manifests''"
             example_settings] h
  obtain f n where
    r: "get_newest_manifest_path example_settings
            (\<lambda>d. [''a_3.json'', ''a_10.json'', ''a_2.json'']) ''data/manifests''
            = Some (path_join ''data/manifests'' f)"
    and f: "f \<in> set [''a_3.json'', ''a_10.json'', ''a_2.json'']"
    and n: "file_number ''json'' f = Some n"
    and mx: "\<forall>g \<in> set [''a_3.json'', ''a_10.json'', ''a_2.json'']. \<forall>m.
              has_file_type ''json'' g \<and> file_number ''json'' g = Some m \<longrightarrow> m \<le> n"
    unfolding e by blast
  from mx file_numbers_example have "10 \<le> n" by simp
  with h r f n show ?thesis by blast
qed

section \<open>Runs without remote storage\<close>

lemma save_and_publish_local_no_network_io:
  "filter is_network_io (save_and_publish cfg fl start_time False ap ar) = []"
  by (simp add: save_and_publish_def Let_def)

lemma save_and_publish_artifacts:
  "filter is_artifact_write (save_and_publish cfg fl start_time use_s3 ap ar) =
     [Torch_save
        (path_join (path_join (local_data_dir fl) (MODEL_STATE_DIR_NAME cfg))
           (str_int start_time @ ''-'' @ network fl @ ''.'' @ MODEL_STATE_FILE_TYPE cfg)),
      Plt_savefig
        (path_join (path_join (local_data_dir fl) (LOGS_DIR_NAME cfg))
           (str_int start_time @ ''-'' @ network fl @ ''.jpg''))]"
  by (simp add: save_and_publish_def Let_def)

lemma save_and_publish_plots:
  "filter is_plot (save_and_publish cfg fl start_time use_s3 ap ar) =
     [Plt_plot ap ''AP: IoU=0.50:0.95 maxDets=100'',
      Plt_plot ar ''AR: IoU=0.50:0.95 maxDets=100'']"
  by (simp add: save_and_publish_def Let_def)

lemma train_local_no_network_io:
  "filter is_network_io (fst (train cfg w start_time False labels)) = []"
proof -
  have e: "filter is_network_io epochs = []"
    if "epoch_loop w (py_range (num_epochs (FLAGS w))) [] [] = (epochs, res)" for epochs res
    using epoch_loop_no_network_io [of w "py_range (num_epochs (FLAGS w))" "[]" "[]"] that
    by simp
  show ?thesis
    by (auto simp add: train_cases prepare_no_network_io save_and_publish_local_no_network_io e
             split: prod.splits sum.splits)
qed

lemma main_local_no_network_io:
  assumes "s3_bucket_name (FLAGS w) = None"
  shows "filter is_network_io (fst (main cfg w)) = []"
proof -
  have b: "bucket_check w = (False, [])" using assms by (rule bucket_check_no_bucket)
  have sc: "sync_calls cfg w = []" by (simp add: sync_calls_def b)
  show ?thesis
    by (simp add: main_cases sc b train_local_no_network_io split: option.splits)
qed

lemma main_Returned_after_labels:
  assumes "files w (label_path cfg w) = Some content" and "content \<noteq> []"
    and "snd (main cfg w) = Returned"
  shows "\<exists>epochs ap ar.
           epoch_loop w (py_range (num_epochs (FLAGS w))) [] [] = (epochs, Inr (ap, ar)) \<and>
           fst (main cfg w) =
             sync_calls cfg w
             @ prepare cfg w (background # splitlines content)
             @ [Model (network (FLAGS w)) (length (background # splitlines content)),
                Print (''Training for '' @ str_int (num_epochs (FLAGS w)) @ '' epochs'')]
             @ epochs
             @ save_and_publish cfg (FLAGS w) (time_time w) (fst (bucket_check w)) ap ar"
proof -
  have l: "load_labels content = Some (background # splitlines content)"
    using assms(2) by (rule load_labels_nonempty)
  have m: "main cfg w =
             (sync_calls cfg w
                @ fst (train cfg w (time_time w) (fst (bucket_check w))
                         (background # splitlines content)),
              snd (train cfg w (time_time w) (fst (bucket_check w))
                     (background # splitlines content)))"
    by (simp add: main_cases assms(1) l)
  with assms(3) have "snd (train cfg w (time_time w) (fst (bucket_check w))
                     (background # splitlines content)) = Returned"
    by simp
  from train_Returned [OF this] m show ?thesis by auto
qed

text \<open>
  Claim C8 says that every run started with no \<^verbatim>\<open>s3_bucket_name\<close> attempts no network
  I/O and still writes the local weights file and plot file. A run without a bucket and
  without a label file returns at line 125 and writes neither file.
\<close>

theorem local_run_without_labels_writes_nothing:
  "s3_bucket_name (FLAGS example_world_no_label_file) = None \<and>
   main example_settings example_world_no_label_file
     = ([Print ''Missing file data/labels.txt''], Returned) \<and>
   filter is_artifact_write (fst (main example_settings example_world_no_label_file)) = []"
proof -
  have "s3_bucket_name (FLAGS example_world_no_label_file) = None"
    by (simp add: example_world_no_label_file_def example_world_def example_flags_def)
  then show ?thesis by (simp add: main_no_label_file)
qed

text \<open>
  Claim C8 as amended: every run started with no \<^verbatim>\<open>s3_bucket_name\<close> attempts no network
  I/O (bucket check, download or upload); and when its label file is present and not
  empty and the run completes, it writes the local weights file and the plot file, and
  no other, both named from the run's start timestamp and chosen network.
\<close>

theorem local_run:
  assumes "s3_bucket_name (FLAGS w) = None"
  shows "filter is_network_io (fst (main cfg w)) = [] \<and>
         ((\<exists>content. files w (label_path cfg w) = Some content \<and> content \<noteq> [])
            \<and> snd (main cfg w) = Returned \<longrightarrow>
          filter is_artifact_write (fst (main cfg w)) =
            [Torch_save
               (path_join (path_join (local_data_dir (FLAGS w)) (MODEL_STATE_DIR_NAME cfg))
                  (str_int (time_time w) @ ''-'' @ network (FLAGS w) @ ''.''
                   @ MODEL_STATE_FILE_TYPE cfg)),
             Plt_savefig
               (path_join (path_join (local_data_dir (FLAGS w)) (LOGS_DIR_NAME cfg))
                  (str_int (time_time w) @ ''-'' @ network (FLAGS w) @ ''.jpg''))])"
proof (intro conjI impI)
  show "filter is_network_io (fst (main cfg w)) = []"
    using assms by (rule main_local_no_network_io)
next
  assume a: "(\<exists>content. files w (label_path cfg w) = Some content \<and> content \<noteq> [])
               \<and> snd (main cfg w) = Returned"
  then obtain content where c: "files w (label_path cfg w) = Some content" "content \<noteq> []"
    by blast
  from main_Returned_after_labels [OF c] a obtain epochs ap ar where
    e: "epoch_loop w (py_range (num_epochs (FLAGS w))) [] [] = (epochs, Inr (ap, ar))"
    and m: "fst (main cfg w) =
             sync_calls cfg w
             @ prepare cfg w (background # splitlines content)
             @ [Model (network (FLAGS w)) (length (background # splitlines content)),
                Print (''Training for '' @ str_int (num_epochs (FLAGS w)) @ '' epochs'')]
             @ epochs
             @ save_and_publish cfg (FLAGS w) (time_time w) (fst (bucket_check w)) ap ar"
    by blast
  have ep: "filter is_artifact_write epochs = []"
    using epoch_loop_no_artifact [of w "py_range (num_epochs (FLAGS w))" "[]" "[]"] e by simp
  show "filter is_artifact_write (fst (main cfg w)) =
            [Torch_save
               (path_join (path_join (local_data_dir (FLAGS w)) (MODEL_STATE_DIR_NAME cfg))
                  (str_int (time_time w) @ ''-'' @ network (FLAGS w) @ ''.''
                   @ MODEL_STATE_FILE_TYPE cfg)),
             Plt_savefig
               (path_join (path_join (local_data_dir (FLAGS w)) (LOGS_DIR_NAME cfg))
                  (str_int (time_time w) @ ''-'' @ network (FLAGS w) @ ''.jpg''))]"
    unfolding m
    by (simp add: sync_calls_no_artifact prepare_no_artifact ep save_and_publish_artifacts)
qed

theorem local_run_witness:
  "s3_bucket_name (FLAGS example_world) = None \<and>
   (\<exists>content. files example_world (label_path example_settings example_world) = Some content
      \<and> content \<noteq> []) \<and>
   snd (main example_settings example_world) = Returned \<and>
   filter is_network_io (fst (main example_settings example_world)) = [] \<and>
   filter is_artifact_write (fst (main example_settings example_world)) =
     [Torch_save ''data/modelstates/1600000000-net.pt'',
      Plt_savefig ''data/logs/1600000000-net.jpg'']"
proof -
  have h1: "s3_bucket_name (FLAGS example_world) = None"
    by (simp add: example_world_def example_flags_def)
  have h2: "\<exists>content. files example_world (label_path example_settings example_world)
              = Some content \<and> content \<noteq> []"
    unfolding label_path_example by (simp add: example_world_def)
  have h3: "snd (main example_settings example_world) = Returned"
    by (simp add: main_example)
  have n: "str_int (time_time example_world) = ''1600000000''"
    by (simp add: example_world_def str_int_def str_nat.simps)
  have v: "path_join (path_join (local_data_dir (FLAGS example_world))
                (MODEL_STATE_DIR_NAME example_settings))
             (''1600000000'' @ ''-'' @ network (FLAGS example_world) @ ''.''
              @ MODEL_STATE_FILE_TYPE example_settings)
           = ''data/modelstates/1600000000-net.pt''"
      "path_join (path_join (local_data_dir (FLAGS example_world))
                (LOGS_DIR_NAME example_settings))
             (''1600000000'' @ ''-'' @ network (FLAGS example_world) @ ''.jpg'')
           = ''data/logs/1600000000-net.jpg''"
    by (simp_all add: example_world_def example_flags_def example_settings_def path_join_def)
  from local_run [OF h1, of example_settings] h2 h3
  have "filter is_network_io (fst (main example_settings example_world)) = [] \<and>
        filter is_artifact_write (fst (main example_settings example_world)) =
          [Torch_save ''data/modelstates/1600000000-net.pt'',
           Plt_savefig ''data/logs/1600000000-net.jpg'']"
    unfolding n v by blast
  with h1 h2 h3 show ?thesis by blast
qed

section \<open>A bucket that cannot be reached\<close>

lemma epoch_loop_same_evaluations:
  assumes "coco_eval w' = coco_eval w"
  shows "epoch_loop w' es ap ar = epoch_loop w es ap ar"
  by (induction es arbitrary: ap ar)
     (simp_all add: assms Let_def split: option.splits sum.splits)

lemma prepare_ignores_bucket:
  "prepare cfg (w\<lparr>FLAGS := (FLAGS w)\<lparr>s3_bucket_name := x\<rparr>\<rparr>) labels = prepare cfg w labels"
  by (simp add: prepare_def Let_def)

lemma save_and_publish_local_ignores_bucket:
  "save_and_publish cfg (fl\<lparr>s3_bucket_name := x\<rparr>) start_time False ap ar
     = save_and_publish cfg fl start_time False ap ar"
  by (simp add: save_and_publish_def Let_def)

lemma train_local_ignores_bucket:
  "train cfg (w\<lparr>FLAGS := (FLAGS w)\<lparr>s3_bucket_name := x\<rparr>\<rparr>) start_time False labels
     = train cfg w start_time False labels"
proof -
  have "epoch_loop (w\<lparr>FLAGS := (FLAGS w)\<lparr>s3_bucket_name := x\<rparr>\<rparr>) es ap ar
          = epoch_loop w es ap ar" for es ap ar
    by (rule epoch_loop_same_evaluations) simp
  then show ?thesis
    by (simp add: train_cases prepare_ignores_bucket save_and_publish_local_ignores_bucket
          split: prod.splits sum.splits)
qed

text \<open>
  Claim C9: for every run where a bucket name is configured but the bucket existence
  check fails, \<^verbatim>\<open>use_s3\<close> becomes false, the failure is printed, and the run continues
  with local data only: what follows makes no network call and is the run of the same
  world with no bucket configured.
\<close>

theorem bucket_check_failure_is_not_fatal:
  assumes "s3_bucket_name (FLAGS w) = Some b" and "\<not> s3_bucket_exists w b"
  shows "fst (bucket_check w) = False \<and>
         (\<exists>rest.
            main cfg w =
              ([S3_bucket_exists (Some b),
                Print (''Bucket: '' @ b
                       @ '' either does not exist or you do not have access to it'')]
               @ rest,
               snd (main cfg w)) \<and>
            filter is_network_io rest = [] \<and>
            filter is_transfer (fst (main cfg w)) = [] \<and>
            main cfg (w\<lparr>FLAGS := (FLAGS w)\<lparr>s3_bucket_name := None\<rparr>\<rparr>) = (rest, snd (main cfg w)))"
proof -
  let ?w = "w\<lparr>FLAGS := (FLAGS w)\<lparr>s3_bucket_name := None\<rparr>\<rparr>"
  let ?log = "[S3_bucket_exists (Some b),
               Print (''Bucket: '' @ b
                      @ '' either does not exist or you do not have access to it'')]"
  have b: "bucket_check w = (False, ?log)"
    using assms by (rule bucket_check_no_access)
  have sc: "sync_calls cfg w = ?log" by (simp add: sync_calls_def b)
  have b': "bucket_check ?w = (False, [])"
    by (rule bucket_check_no_bucket) simp
  have sc': "sync_calls cfg ?w = []" by (simp add: sync_calls_def b')
  have lp: "label_path cfg ?w = label_path cfg w" by (simp add: label_path_def)
  have f: "files ?w = files w" and t: "time_time ?w = time_time w" by simp_all
  have tr: "train cfg ?w st False labels = train cfg w st False labels" for st labels
    by (rule train_local_ignores_bucket)
  have m: "main cfg w = (?log @ fst (main cfg ?w), snd (main cfg ?w))"
    unfolding main_cases [of cfg w] main_cases [of cfg ?w] sc sc' b b' lp f t
    by (simp add: tr split: option.splits)
  have n: "filter is_network_io (fst (main cfg ?w)) = []"
    by (rule main_local_no_network_io) simp
  have "filter is_transfer xs = []" if "filter is_network_io xs = []" for xs :: "'a event list"
    using that
  proof (induction xs)
    case Nil
    show ?case by simp
  next
    case (Cons x xs)
    then show ?case by (cases x) (simp_all split: if_splits)
  qed
  from this [OF n] have tf: "filter is_transfer (fst (main cfg w)) = []"
    by (simp add: m)
  from m have s: "snd (main cfg w) = snd (main cfg ?w)" by simp
  have "main cfg w = (?log @ fst (main cfg ?w), snd (main cfg w))
        \<and> filter is_network_io (fst (main cfg ?w)) = []
        \<and> filter is_transfer (fst (main cfg w)) = []
        \<and> main cfg ?w = (fst (main cfg ?w), snd (main cfg w))"
    using m n tf s by simp
  then show ?thesis using b by auto
qed

lemma main_no_bucket_access:
  "main example_settings (example_world_no_bucket_access\<lparr>FLAGS :=
       (FLAGS example_world_no_bucket_access)\<lparr>s3_bucket_name := None\<rparr>\<rparr>)
     = main example_settings example_world"
  by (simp add: example_world_no_bucket_access_def example_world_def example_flags_def)

theorem bucket_check_failure_is_not_fatal_witness:
  "s3_bucket_name (FLAGS example_world_no_bucket_access) = Some ''bkt'' \<and>
   \<not> s3_bucket_exists example_world_no_bucket_access ''bkt'' \<and>
   main example_settings example_world_no_bucket_access =
     ([S3_bucket_exists (Some ''bkt''),
       Print ''Bucket: bkt either does not exist or you do not have access to it'']
      @ fst (main example_settings example_world),
      Returned) \<and>
   filter is_transfer (fst (main example_settings example_world_no_bucket_access)) = []"
proof -
  have h1: "s3_bucket_name (FLAGS example_world_no_bucket_access) = Some ''bkt''"
    by (simp add: example_world_no_bucket_access_def example_flags_def)
  have h2: "\<not> s3_bucket_exists example_world_no_bucket_access ''bkt''"
    by (simp add: example_world_no_bucket_access_def example_world_def)
  from bucket_check_failure_is_not_fatal [OF h1 h2, of example_settings]
  obtain rest where
    m: "main example_settings example_world_no_bucket_access =
          ([S3_bucket_exists (Some ''bkt''),
            Print (''Bucket: '' @ ''bkt''
                   @ '' either does not exist or you do not have access to it'')] @ rest,
           snd (main example_settings example_world_no_bucket_access))"
    and tf: "filter is_transfer (fst (main example_settings example_world_no_bucket_access)) = []"
    and l: "main example_settings example_world =
          (rest, snd (main example_settings example_world_no_bucket_access))"
    unfolding main_no_bucket_access by blast
  from l have "rest = fst (main example_settings example_world)"
    and "snd (main example_settings example_world_no_bucket_access) = Returned"
    by (simp_all add: main_example)
  with m tf h1 h2 show ?thesis by simp
qed

section \<open>The metric histories\<close>

lemma py_range_nth: "i < nat n \<Longrightarrow> py_range n ! i = i"
  by (simp add: py_range_def)

text \<open>
  Claim C10: for every run of \<^verbatim>\<open>num_epochs\<close> epochs that completes, each epoch appends
  one entry to each history, element 0 of that epoch's statistics to the precision
  history and element 8 to the recall history, so that after the loop both histories
  (the two plotted lines) have \<^verbatim>\<open>num_epochs\<close> entries in epoch order.
\<close>

theorem histories_after_loop:
  assumes "files w (label_path cfg w) = Some content" and "content \<noteq> []"
    and "snd (main cfg w) = Returned"
  shows "\<exists>ap ar.
           filter is_plot (fst (main cfg w)) =
             [Plt_plot ap ''AP: IoU=0.50:0.95 maxDets=100'',
              Plt_plot ar ''AR: IoU=0.50:0.95 maxDets=100''] \<and>
           length ap = nat (num_epochs (FLAGS w)) \<and>
           length ar = nat (num_epochs (FLAGS w)) \<and>
           (0 \<le> num_epochs (FLAGS w) \<longrightarrow>
              int (length ap) = num_epochs (FLAGS w) \<and> int (length ar) = num_epochs (FLAGS w)) \<and>
           (\<forall>epoch < nat (num_epochs (FLAGS w)).
              \<exists>stats. coco_eval w epoch ''bbox'' = Some stats \<and>
                      8 < length stats \<and>
                      ap ! epoch = stats ! 0 \<and>
                      ar ! epoch = stats ! 8)"
proof -
  let ?n = "nat (num_epochs (FLAGS w))"
  let ?es = "py_range (num_epochs (FLAGS w))"
  from main_Returned_after_labels [OF assms] obtain epochs ap ar where
    e: "epoch_loop w ?es [] [] = (epochs, Inr (ap, ar))"
    and m: "fst (main cfg w) =
             sync_calls cfg w
             @ prepare cfg w (background # splitlines content)
             @ [Model (network (FLAGS w)) (length (background # splitlines content)),
                Print (''Training for '' @ str_int (num_epochs (FLAGS w)) @ '' epochs'')]
             @ epochs
             @ save_and_publish cfg (FLAGS w) (time_time w) (fst (bucket_check w)) ap ar"
    by blast
  have len: "length ?es = ?n" by (simp add: py_range_def)
  from epoch_loop_histories [OF e]
  have ap: "ap = map (\<lambda>e. the (coco_eval w e ''bbox'') ! 0) ?es"
    and ar: "ar = map (\<lambda>e. the (coco_eval w e ''bbox'') ! 8) ?es"
    and st: "\<forall>e \<in> set ?es. \<exists>stats. coco_eval w e ''bbox'' = Some stats
                \<and> 0 < length stats \<and> 8 < length stats"
    by (simp_all add: AVERAGE_PRECISION_STAT_INDEX_def AVERAGE_RECALL_STAT_INDEX_def)
  have sync_no_plot: "filter is_plot (sync_calls cfg w) = []"
    by (simp add: sync_calls_def bucket_check_def download_all_def
             split: prod.splits option.splits if_splits)
  have ep: "filter is_plot epochs = []"
    using epoch_loop_no_plot [of w ?es "[]" "[]"] e by simp
  have plots: "filter is_plot (fst (main cfg w)) =
             [Plt_plot ap ''AP: IoU=0.50:0.95 maxDets=100'',
              Plt_plot ar ''AR: IoU=0.50:0.95 maxDets=100'']"
    unfolding m by (simp add: sync_no_plot prepare_no_plot ep save_and_publish_plots)
  have each: "\<exists>stats. coco_eval w epoch ''bbox'' = Some stats \<and> 8 < length stats \<and>
                ap ! epoch = stats ! 0 \<and> ar ! epoch = stats ! 8"
    if "epoch < ?n" for epoch
  proof -
    from that have "epoch \<in> set ?es" by (simp add: py_range_def)
    with st obtain stats where s: "coco_eval w epoch ''bbox'' = Some stats" "8 < length stats"
      by blast
    from that have "ap ! epoch = stats ! 0" "ar ! epoch = stats ! 8"
      by (simp_all add: ap ar len py_range_nth s)
    with s show ?thesis by blast
  qed
  have "length ap = ?n" "length ar = ?n" by (simp_all add: ap ar len)
  with plots each show ?thesis by auto
qed

theorem histories_after_loop_witness:
  "files example_world (label_path example_settings example_world)
     = Some (map of_char ''cat\<newline>dog\<newline>'') \<and>
   map of_char ''cat\<newline>dog\<newline>'' \<noteq> ([] :: nat list) \<and>
   snd (main example_settings example_world) = Returned \<and>
   num_epochs (FLAGS example_world) = 2 \<and>
   filter is_plot (fst (main example_settings example_world)) =
     [Plt_plot [0, 100] ''AP: IoU=0.50:0.95 maxDets=100'',
      Plt_plot [8, 108] ''AR: IoU=0.50:0.95 maxDets=100'']"
proof -
  have h1: "files example_world (label_path example_settings example_world)
              = Some (map of_char ''cat\<newline>dog\<newline>'')"
    unfolding label_path_example by (simp add: example_world_def)
  have h2: "map of_char ''cat\<newline>dog\<newline>'' \<noteq> ([] :: nat list)" by simp
  have h3: "snd (main example_settings example_world) = Returned"
    by (simp add: main_example)
  have n: "num_epochs (FLAGS example_world) = 2"
    by (simp add: example_world_def example_flags_def)
  have c: "coco_eval example_world e ''bbox'' = Some (map (\<lambda>i. 100 * e + i) [0..<12])" for e
    by (simp add: example_world_def)
  from histories_after_loop [OF h1 h2 h3] obtain ap ar where
    p: "filter is_plot (fst (main example_settings example_world)) =
             [Plt_plot ap ''AP: IoU=0.50:0.95 maxDets=100'',
              Plt_plot ar ''AR: IoU=0.50:0.95 maxDets=100'']"
    and l: "length ap = 2" "length ar = 2"
    and s: "\<forall>epoch < 2. \<exists>stats. coco_eval example_world epoch ''bbox'' = Some stats \<and>
                      8 < length stats \<and> ap ! epoch = stats ! 0 \<and> ar ! epoch = stats ! 8"
    unfolding n by auto
  from s have "\<exists>stats. coco_eval example_world 0 ''bbox'' = Some stats \<and>
                 8 < length stats \<and> ap ! 0 = stats ! 0 \<and> ar ! 0 = stats ! 8"
    by simp
  then have z: "ap ! 0 = 0" "ar ! 0 = 8"
    by (auto simp add: c simp del: upt.simps upt_Suc)
  from s have "\<exists>stats. coco_eval example_world 1 ''bbox'' = Some stats \<and>
                 8 < length stats \<and> ap ! 1 = stats ! 0 \<and> ar ! 1 = stats ! 8"
    by simp
  then have o: "ap ! 1 = 100" "ar ! 1 = 108"
    by (auto simp add: c simp del: upt.simps upt_Suc)
  from z o have "ap ! 0 = 0 \<and> ar ! 0 = 8 \<and> ap ! 1 = 100 \<and> ar ! 1 = 108"
    by simp
  with l have "ap = [0, 100]" "ar = [8, 108]"
    by (auto simp add: length_Suc_conv numeral_2_eq_2)
  with p h1 h2 h3 n show ?thesis by simp
qed

end
